theory Spec2Isabelle
  imports Complex_Main
begin

section \<open>Splitting media at silence: \<^verbatim>\<open>examples/split_silence.py\<close>\<close>

text \<open>
  The script runs the external engine once with its \<^verbatim>\<open>silencedetect\<close> filter, reads the
  diagnostic text line by line, rebuilds the non-silent intervals
  (\<^verbatim>\<open>get_chunk_times\<close>) and then runs the engine once per interval to cut the
  segment out (\<^verbatim>\<open>split_audio\<close>).

  Modelling decisions. The script is read with the semantics of Python 3.
  \<^item> A text is a \<^typ>\<open>string\<close>, the list of the bytes of its UTF-8 encoding; the three
    patterns only name ASCII characters.
  \<^item> An exception is a value of \<open>py_error\<close>; a function that can raise returns
    \<open>py_error + 'a\<close>, with \<open>Inl\<close> for the exception.
  \<^item> The statements about the timeline (the scan of the lines and the pairing) read a
    time as the rational number its decimal text denotes (\<^typ>\<open>rat\<close>). They are about
    which entries the two sequences hold and in which order, and about the order of the
    times they are given.
  \<^item> The run of the script as a whole (\<^verbatim>\<open>split_audio\<close>) is modelled with the
    floats Python computes: IEEE doubles with rounding to nearest, infinities, NaN and
    the negative zero (\<open>pyfloat\<close>), since the texts it writes depend on them.
  \<^item> The child processes, the file system and \<^verbatim>\<open>str.format\<close> on the output pattern
    are outside the script: they are parameters (record \<open>env\<close>), and what the script
    does to the outside is recorded in a \<open>world\<close> that is passed along.
\<close>

subsection \<open>Exceptions\<close>

datatype py_error =
    ValueError
  | UnicodeDecodeError
  | SystemExit int
  | OSError int
  | FormatError

subsection \<open>The three patterns (lines 34 to 37)\<close>

text \<open>
  \<^verbatim>\<open>re.search\<close> tries the pattern at every position of the line from the left, the end
  of the line included, and returns the first match. A pattern is modelled by its
  matcher at one position: a function from the rest of the line to the captured groups.
\<close>

fun re_search :: "(string \<Rightarrow> 'a option) \<Rightarrow> string \<Rightarrow> 'a option" where
  "re_search m [] = m []"
| "re_search m (c # cs) = (case m (c # cs) of Some g \<Rightarrow> Some g | None \<Rightarrow> re_search m cs)"

definition is_digit :: "char \<Rightarrow> bool" where
  "is_digit c = (c \<in> set ''0123456789'')"

fun strip_prefix :: "string \<Rightarrow> string \<Rightarrow> string option" where
  "strip_prefix [] s = Some s"
| "strip_prefix (p # ps) [] = None"
| "strip_prefix (p # ps) (c # cs) = (if p = c then strip_prefix ps cs else None)"

text \<open>
  \<^verbatim>\<open>[0-9]+(\.?[0-9]*)\<close>: the longest run of digits (at least one), a dot if one follows,
  and the longest run of digits after it. In both patterns that use it the next item is
  the end of the line or a blank, neither a digit nor a dot, so no shorter alternative of
  the backtracking matcher can succeed where this longest one fails. The result is the
  captured text and the rest of the line.
\<close>

definition number_re :: "string \<Rightarrow> (string \<times> string) option" where
  "number_re s =
     (let d1 = takeWhile is_digit s; r1 = dropWhile is_digit s in
      if d1 = [] then None
      else (case r1 of
              [] \<Rightarrow> Some (d1, [])
            | c # t \<Rightarrow>
                if c = CHR ''.''
                then Some (d1 @ [c] @ takeWhile is_digit t, dropWhile is_digit t)
                else Some (d1, r1)))"

text \<open>
  \<^verbatim>\<open>' silence_start: (?P<start>[0-9]+(\.?[0-9]*))$'\<close>. Without the MULTILINE flag,
  \<^verbatim>\<open>$\<close> holds at the end of the text and before a newline that ends the text.
\<close>

definition silence_start_re :: "string \<Rightarrow> string option" where
  "silence_start_re s =
     (case strip_prefix '' silence_start: '' s of
        None \<Rightarrow> None
      | Some r \<Rightarrow>
          (case number_re r of
             None \<Rightarrow> None
           | Some (start, rest) \<Rightarrow>
               if rest = [] \<or> rest = [CHR 0x0A] then Some start else None))"

text \<open>\<^verbatim>\<open>' silence_end: (?P<end>[0-9]+(\.?[0-9]*)) '\<close>: a blank has to follow the number.\<close>

definition silence_end_re :: "string \<Rightarrow> string option" where
  "silence_end_re s =
     (case strip_prefix '' silence_end: '' s of
        None \<Rightarrow> None
      | Some r \<Rightarrow>
          (case number_re r of
             None \<Rightarrow> None
           | Some (end, rest) \<Rightarrow>
               (case strip_prefix '' '' rest of None \<Rightarrow> None | Some _ \<Rightarrow> Some end)))"

text \<open>A class repeated exactly \<open>n\<close> times, as \<^verbatim>\<open>[0-9]{2}\<close> and \<^verbatim>\<open>[0-9\.]{5}\<close>.\<close>

definition take_class :: "nat \<Rightarrow> (char \<Rightarrow> bool) \<Rightarrow> string \<Rightarrow> (string \<times> string) option" where
  "take_class n p s =
     (if n \<le> length s \<and> list_all p (take n s) then Some (take n s, drop n s) else None)"

definition not_blank :: "char \<Rightarrow> bool" where
  "not_blank c = (c \<noteq> CHR '' '')"

definition digit_or_dot :: "char \<Rightarrow> bool" where
  "digit_or_dot c = (is_digit c \<or> c = CHR ''.'')"

text \<open>
  \<^verbatim>\<open>'size=[^ ]+ time=(?P<hours>[0-9]{2}):(?P<minutes>[0-9]{2}):(?P<seconds>[0-9\.]{5}) bitrate='\<close>.
  \<^verbatim>\<open>[^ ]+\<close> is followed by a blank, so it can only be the whole run of non-blank
  characters.
\<close>

definition total_duration_re :: "string \<Rightarrow> (string \<times> string \<times> string) option" where
  "total_duration_re s =
     (case strip_prefix ''size='' s of
        None \<Rightarrow> None
      | Some r0 \<Rightarrow>
          if takeWhile not_blank r0 = [] then None
          else
            (case strip_prefix '' time='' (dropWhile not_blank r0) of
               None \<Rightarrow> None
             | Some r1 \<Rightarrow>
            (case take_class 2 is_digit r1 of
               None \<Rightarrow> None
             | Some (hours, r2) \<Rightarrow>
            (case strip_prefix '':'' r2 of
               None \<Rightarrow> None
             | Some r3 \<Rightarrow>
            (case take_class 2 is_digit r3 of
               None \<Rightarrow> None
             | Some (minutes, r4) \<Rightarrow>
            (case strip_prefix '':'' r4 of
               None \<Rightarrow> None
             | Some r5 \<Rightarrow>
            (case take_class 5 digit_or_dot r5 of
               None \<Rightarrow> None
             | Some (seconds, r6) \<Rightarrow>
            (case strip_prefix '' bitrate='' r6 of
               None \<Rightarrow> None
             | Some _ \<Rightarrow> Some (hours, minutes, seconds)))))))))"

subsection \<open>Numbers from text\<close>

definition digit_val :: "char \<Rightarrow> int" where
  "digit_val c = of_char c - 48"

definition dec_val :: "string \<Rightarrow> int" where
  "dec_val ds = foldl (\<lambda>a c. 10 * a + digit_val c) 0 ds"

text \<open>\<^verbatim>\<open>int(text)\<close>, on the two digits a pattern captured.\<close>

definition py_int :: "string \<Rightarrow> int" where
  "py_int ds = dec_val ds"

text \<open>
  \<^verbatim>\<open>float(text)\<close> on a text of digits and dots, which is all the patterns capture: digits
  with at most one dot and at least one digit give the decimal value, anything else raises
  \<^verbatim>\<open>ValueError\<close> (as \<^verbatim>\<open>float('1.2.3')\<close> and \<^verbatim>\<open>float('.')\<close> do). The value here is
  the number the text denotes; the double that Python makes of it is this number rounded
  (\<open>float_of_text\<close> below).
\<close>

definition py_float :: "string \<Rightarrow> py_error + rat" where
  "py_float s =
     (let ip = takeWhile is_digit s; r = dropWhile is_digit s in
      case r of
        [] \<Rightarrow> if ip = [] then Inl ValueError else Inr (of_int (dec_val ip))
      | c # fp \<Rightarrow>
          if c = CHR ''.'' \<and> list_all is_digit fp \<and> (ip \<noteq> [] \<or> fp \<noteq> [])
          then Inr (of_int (dec_val ip) + of_int (dec_val fp) / 10 ^ length fp)
          else Inl ValueError)"

text \<open>\<^verbatim>\<open>x or d\<close> on a float, and on a float that may be \<^verbatim>\<open>None\<close>: zero and \<^verbatim>\<open>None\<close> are false.\<close>

definition float_or :: "rat \<Rightarrow> rat \<Rightarrow> rat" where
  "float_or x d = (if x = 0 then d else x)"

definition opt_float_or :: "rat option \<Rightarrow> rat \<Rightarrow> rat" where
  "opt_float_or x d = (case x of None \<Rightarrow> d | Some v \<Rightarrow> float_or v d)"

subsection \<open>The scan of \<^verbatim>\<open>get_chunk_times\<close> (lines 70 to 98)\<close>

record scan_state =
  chunk_starts :: "rat list"
  chunk_ends :: "rat list"
  end_time :: "rat option"

text \<open>
  The body of the loop, lines 74 to 88. The three searches are all made; the
  \<^verbatim>\<open>if\<close>/\<^verbatim>\<open>elif\<close> chain uses the first that matched, and only the branch taken
  converts its groups.
\<close>

definition loop_body :: "rat \<Rightarrow> scan_state \<Rightarrow> string \<Rightarrow> py_error + scan_state" where
  "loop_body start_time s line =
     (let silence_start_match = re_search silence_start_re line;
          silence_end_match = re_search silence_end_re line;
          total_duration_match = re_search total_duration_re line
      in case silence_start_match of
           Some start \<Rightarrow>
             (case py_float start of
                Inl e \<Rightarrow> Inl e
              | Inr t \<Rightarrow>
                  Inr (if length (chunk_starts s) = 0
                       then s\<lparr>chunk_ends := chunk_ends s @ [t],
                              chunk_starts := chunk_starts s @ [float_or start_time 0]\<rparr>
                       else s\<lparr>chunk_ends := chunk_ends s @ [t]\<rparr>))
         | None \<Rightarrow>
             (case silence_end_match of
                Some end \<Rightarrow>
                  (case py_float end of
                     Inl e \<Rightarrow> Inl e
                   | Inr t \<Rightarrow> Inr (s\<lparr>chunk_starts := chunk_starts s @ [t]\<rparr>))
              | None \<Rightarrow>
                  (case total_duration_match of
                     Some (hours, minutes, seconds) \<Rightarrow>
                       (case py_float seconds of
                          Inl e \<Rightarrow> Inl e
                        | Inr sec \<Rightarrow>
                            Inr (s\<lparr>end_time :=
                                   Some (of_int (py_int hours) * 3600
                                         + of_int (py_int minutes) * 60 + sec)\<rparr>))
                   | None \<Rightarrow> Inr s)))"

fun scan_lines :: "rat \<Rightarrow> string list \<Rightarrow> scan_state \<Rightarrow> py_error + scan_state" where
  "scan_lines start_time [] s = Inr s"
| "scan_lines start_time (line # lines) s =
     (case loop_body start_time s line of
        Inl e \<Rightarrow> Inl e
      | Inr s' \<Rightarrow> scan_lines start_time lines s')"

text \<open>Lines 90 to 96, the two repairs after the loop.\<close>

definition no_silence_found :: "rat \<Rightarrow> scan_state \<Rightarrow> scan_state" where
  "no_silence_found start_time s =
     (if length (chunk_starts s) = 0
      then s\<lparr>chunk_starts := chunk_starts s @ [start_time]\<rparr> else s)"

definition finished_with_non_silence :: "scan_state \<Rightarrow> scan_state" where
  "finished_with_non_silence s =
     (if length (chunk_starts s) > length (chunk_ends s)
      then s\<lparr>chunk_ends := chunk_ends s @ [opt_float_or (end_time s) 10000000]\<rparr> else s)"

definition post_process :: "rat \<Rightarrow> scan_state \<Rightarrow> scan_state" where
  "post_process start_time s = finished_with_non_silence (no_silence_found start_time s)"

text \<open>
  Lines 47 to 50 and 70 to 98: \<^verbatim>\<open>get_chunk_times\<close> from the lines of the diagnostic
  text on, with the arguments \<^verbatim>\<open>start_time\<close> and \<^verbatim>\<open>end_time\<close> (\<open>None\<close> when not
  given).
\<close>

definition default_start :: "rat option \<Rightarrow> rat" where
  "default_start start_time = (case start_time of Some t \<Rightarrow> t | None \<Rightarrow> 0)"

definition chunk_times_of ::
  "string list \<Rightarrow> rat option \<Rightarrow> rat option \<Rightarrow> py_error + (rat \<times> rat) list" where
  "chunk_times_of lines start_time end_time_arg =
     (case scan_lines (default_start start_time) lines
             \<lparr>chunk_starts = [], chunk_ends = [], end_time = end_time_arg\<rparr> of
        Inl e \<Rightarrow> Inl e
      | Inr s \<Rightarrow>
          (let s' = post_process (default_start start_time) s
           in Inr (zip (chunk_starts s') (chunk_ends s'))))"

subsection \<open>The scan as a fold over events\<close>

text \<open>
  For the statements about whole streams, a line is read as the event the loop body
  extracts from it: the same three searches in the same order, and the same conversions.
  \<open>loop_body_parse_line\<close> below proves that the loop body is exactly this reading
  followed by \<open>apply_event\<close>.
\<close>

datatype event =
    SilenceStart rat
  | SilenceEnd rat
  | DurationReport rat

definition parse_line :: "string \<Rightarrow> py_error + event option" where
  "parse_line line =
     (case re_search silence_start_re line of
        Some start \<Rightarrow>
          (case py_float start of Inl e \<Rightarrow> Inl e | Inr t \<Rightarrow> Inr (Some (SilenceStart t)))
      | None \<Rightarrow>
          (case re_search silence_end_re line of
             Some end \<Rightarrow>
               (case py_float end of Inl e \<Rightarrow> Inl e | Inr t \<Rightarrow> Inr (Some (SilenceEnd t)))
           | None \<Rightarrow>
               (case re_search total_duration_re line of
                  Some (hours, minutes, seconds) \<Rightarrow>
                    (case py_float seconds of
                       Inl e \<Rightarrow> Inl e
                     | Inr sec \<Rightarrow>
                         Inr (Some (DurationReport
                           (of_int (py_int hours) * 3600 + of_int (py_int minutes) * 60 + sec))))
                | None \<Rightarrow> Inr None)))"

fun apply_event :: "rat \<Rightarrow> scan_state \<Rightarrow> event \<Rightarrow> scan_state" where
  "apply_event start_time s (SilenceStart t) =
     (if length (chunk_starts s) = 0
      then s\<lparr>chunk_ends := chunk_ends s @ [t],
             chunk_starts := chunk_starts s @ [float_or start_time 0]\<rparr>
      else s\<lparr>chunk_ends := chunk_ends s @ [t]\<rparr>)"
| "apply_event start_time s (SilenceEnd t) = s\<lparr>chunk_starts := chunk_starts s @ [t]\<rparr>"
| "apply_event start_time s (DurationReport d) = s\<lparr>end_time := Some d\<rparr>"

text \<open>
  A line whose conversion does not raise. Only the seconds of a duration report can make
  \<^verbatim>\<open>float\<close> raise: the number of a silence marker always converts
  (\<open>parses_silence_start\<close>, \<open>parses_silence_end\<close>).
\<close>

definition parses :: "string \<Rightarrow> bool" where
  "parses line = (case parse_line line of Inl e \<Rightarrow> False | Inr ev \<Rightarrow> True)"

fun events :: "string list \<Rightarrow> event list" where
  "events [] = []"
| "events (line # lines) =
     (case parse_line line of
        Inr (Some ev) \<Rightarrow> ev # events lines
      | _ \<Rightarrow> events lines)"

fun start_times :: "event list \<Rightarrow> rat list" where
  "start_times [] = []"
| "start_times (SilenceStart t # evs) = t # start_times evs"
| "start_times (ev # evs) = start_times evs"

fun end_times :: "event list \<Rightarrow> rat list" where
  "end_times [] = []"
| "end_times (SilenceEnd t # evs) = t # end_times evs"
| "end_times (ev # evs) = end_times evs"

text \<open>The silence markers of a stream, in order, and the time each carries.\<close>

fun markers :: "event list \<Rightarrow> event list" where
  "markers [] = []"
| "markers (DurationReport d # evs) = markers evs"
| "markers (ev # evs) = ev # markers evs"

fun event_time :: "event \<Rightarrow> rat" where
  "event_time (SilenceStart t) = t"
| "event_time (SilenceEnd t) = t"
| "event_time (DurationReport d) = d"

text \<open>The last total duration reported, or the given \<^verbatim>\<open>end_time\<close> when none was.\<close>

fun reported_end :: "event list \<Rightarrow> rat option \<Rightarrow> rat option" where
  "reported_end [] e = e"
| "reported_end (DurationReport d # evs) e = reported_end evs (Some d)"
| "reported_end (ev # evs) e = reported_end evs e"

text \<open>
  What lines 79 to 81 add in front of \<open>chunk_starts\<close>: the start time, when the first
  silence marker of the stream is a silence start.
\<close>

definition leading_start :: "rat \<Rightarrow> event list \<Rightarrow> rat list" where
  "leading_start start_time evs =
     (case markers evs of SilenceStart t # m \<Rightarrow> [start_time] | _ \<Rightarrow> [])"

text \<open>
  Silence markers that alternate, the first one a silence end; and markers that
  alternate, whichever comes first.
\<close>

fun alternating_from_end :: "event list \<Rightarrow> bool" where
  "alternating_from_end [] = True"
| "alternating_from_end [SilenceEnd a] = True"
| "alternating_from_end (SilenceEnd a # SilenceStart b # m) = alternating_from_end m"
| "alternating_from_end m = False"

definition alternating :: "event list \<Rightarrow> bool" where
  "alternating m =
     (case m of SilenceStart b # m' \<Rightarrow> alternating_from_end m' | _ \<Rightarrow> alternating_from_end m)"

text \<open>
  The result of \<open>chunk_times_of\<close> in terms of the events of the stream
  (\<open>chunk_times_events\<close>): the two sequences after the scan, the two repairs, the
  pairing.
\<close>

definition pairing :: "rat \<Rightarrow> event list \<Rightarrow> rat option \<Rightarrow> (rat \<times> rat) list" where
  "pairing d evs en =
     (let starts0 = leading_start d evs @ end_times evs;
          starts1 = (if starts0 = [] then [d] else starts0);
          ends0 = start_times evs;
          ends1 = (if length starts1 > length ends0
                   then ends0 @ [opt_float_or (reported_end evs en) 10000000] else ends0)
      in zip starts1 ends1)"

text \<open>
  The effective end time as the specification words it: the last total duration
  reported, else the \<^verbatim>\<open>end_time\<close> given, and the sentinel only when there is neither.
  (Line 96 computes \<open>opt_float_or (reported_end evs en) 10000000\<close> instead.)
\<close>

definition effective_end :: "event list \<Rightarrow> rat option \<Rightarrow> rat" where
  "effective_end evs en = (case reported_end evs en of Some e \<Rightarrow> e | None \<Rightarrow> 10000000)"

section \<open>The run of the script: \<^verbatim>\<open>get_chunk_times\<close>, \<^verbatim>\<open>split_audio\<close> and what they call\<close>

subsection \<open>Python floats\<close>

text \<open>
  A float is an IEEE double: a finite value (the rational number it is exactly, with
  \<open>Finite 0\<close> for the positive zero), the negative zero, an infinity or NaN.
\<close>

datatype pyfloat = Finite rat | NegZero | PosInf | NegInf | NaN

definition is_finite :: "pyfloat \<Rightarrow> bool" where
  "is_finite x = (case x of Finite q \<Rightarrow> True | NegZero \<Rightarrow> True | _ \<Rightarrow> False)"

definition float_value :: "pyfloat \<Rightarrow> rat" where
  "float_value x = (case x of Finite q \<Rightarrow> q | _ \<Rightarrow> 0)"

text \<open>The number of binary digits of a positive integer, and the powers of two.\<close>

function bit_length :: "int \<Rightarrow> int" where
  "bit_length n = (if n \<le> 0 then 0 else 1 + bit_length (n div 2))"
  by pat_completeness auto
termination
  by (relation "measure nat") auto

declare bit_length.simps [simp del]

function pow2_nonneg :: "int \<Rightarrow> rat" where
  "pow2_nonneg k =
     (if k \<le> 0 then 1
      else (let h = pow2_nonneg (k div 2) in if even k then h * h else 2 * (h * h)))"
  by pat_completeness auto
termination
  by (relation "measure nat") auto

declare pow2_nonneg.simps [simp del]

definition pow2 :: "int \<Rightarrow> rat" where
  "pow2 k = (if k < 0 then 1 / pow2_nonneg (- k) else pow2_nonneg k)"

text \<open>The exponent \<open>e\<close> with \<open>2 ^ e \<le> a < 2 ^ (e + 1)\<close>, for a positive \<open>a\<close>.\<close>

definition floor_log2 :: "rat \<Rightarrow> int" where
  "floor_log2 a =
     (case quotient_of a of (n, d) \<Rightarrow>
        (let k = bit_length n - bit_length d in if pow2 k \<le> a then k else k - 1))"

definition round_half_even :: "rat \<Rightarrow> int" where
  "round_half_even q =
     (let f = \<lfloor>q\<rfloor>; r = q - of_int f in
      if r < 1 / 2 then f
      else if 1 / 2 < r then f + 1
      else if even f then f else f + 1)"

text \<open>
  Rounding of an exact value to the nearest double, ties to the even mantissa: 53 binary
  digits above the smallest normal exponent -1022, fewer below it; a value that rounds to
  2 ^ 1024 or more becomes an infinity, one that rounds to nothing a zero of its sign.
\<close>

definition round_double :: "rat \<Rightarrow> pyfloat" where
  "round_double q =
     (if q = 0 then Finite 0
      else
        (let a = \<bar>q\<bar>; e0 = floor_log2 a in
         if 1024 \<le> e0 then (if 0 < q then PosInf else NegInf)
         else
           (let e = max e0 (- 1022);
                ulp = pow2 (e - 52);
                m = round_half_even (a / ulp)
            in if e = 1023 \<and> m = 9007199254740992 then (if 0 < q then PosInf else NegInf)
               else if m = 0 then (if 0 < q then Finite 0 else NegZero)
               else Finite (if 0 < q then of_int m * ulp else - (of_int m * ulp)))))"

text \<open>
  \<^verbatim>\<open>float(text)\<close>, on the texts the patterns capture: the decimal value, rounded.
\<close>

definition float_of_text :: "string \<Rightarrow> py_error + pyfloat" where
  "float_of_text s = (case py_float s of Inl e \<Rightarrow> Inl e | Inr q \<Rightarrow> Inr (round_double q))"

text \<open>
  \<^verbatim>\<open>a - b\<close> and \<^verbatim>\<open>a + b\<close> on floats: NaN when an operand is, the rules of the
  infinities, and otherwise the exact result rounded; an exact zero is positive, except
  \<open>(-0) - (+0)\<close> and \<open>(-0) + (-0)\<close>.
\<close>

definition float_sub :: "pyfloat \<Rightarrow> pyfloat \<Rightarrow> pyfloat" where
  "float_sub a b =
     (if a = NaN \<or> b = NaN then NaN
      else if a = PosInf then (if b = PosInf then NaN else PosInf)
      else if a = NegInf then (if b = NegInf then NaN else NegInf)
      else if b = PosInf then NegInf
      else if b = NegInf then PosInf
      else (let r = float_value a - float_value b in
            if r = 0 then (if a = NegZero \<and> b = Finite 0 then NegZero else Finite 0)
            else round_double r))"

definition float_add :: "pyfloat \<Rightarrow> pyfloat \<Rightarrow> pyfloat" where
  "float_add a b =
     (if a = NaN \<or> b = NaN then NaN
      else if a = PosInf then (if b = NegInf then NaN else PosInf)
      else if a = NegInf then (if b = PosInf then NaN else NegInf)
      else if b = PosInf then PosInf
      else if b = NegInf then NegInf
      else (let r = float_value a + float_value b in
            if r = 0 then (if a = NegZero \<and> b = NegZero then NegZero else Finite 0)
            else round_double r))"

text \<open>
  Truth of a float (both zeros are false, NaN is true), \<^verbatim>\<open>x or d\<close>, and \<^verbatim>\<open>x > 0.\<close>
  (false for NaN).
\<close>

definition float_is_zero :: "pyfloat \<Rightarrow> bool" where
  "float_is_zero x = (x = Finite 0 \<or> x = NegZero)"

definition pyfloat_or :: "pyfloat \<Rightarrow> pyfloat \<Rightarrow> pyfloat" where
  "pyfloat_or x d = (if float_is_zero x then d else x)"

definition opt_pyfloat_or :: "pyfloat option \<Rightarrow> pyfloat \<Rightarrow> pyfloat" where
  "opt_pyfloat_or x d = (case x of None \<Rightarrow> d | Some v \<Rightarrow> pyfloat_or v d)"

definition float_positive :: "pyfloat \<Rightarrow> bool" where
  "float_positive x = (case x of Finite q \<Rightarrow> 0 < q | PosInf \<Rightarrow> True | _ \<Rightarrow> False)"

text \<open>
  \<^verbatim>\<open>'{:.04f}'.format(x)\<close>. A finite value is rounded to four decimals, ties to the even
  neighbour, and written with a sign when negative, the integer part, a dot and four
  digits (\<open>fixed_04f\<close>, on the exact value of the double). The others are written
  \<^verbatim>\<open>inf\<close>, \<^verbatim>\<open>-inf\<close> and \<^verbatim>\<open>nan\<close>.
\<close>

definition digit_char :: "int \<Rightarrow> char" where
  "digit_char d = ''0123456789'' ! nat d"

function str_dec :: "int \<Rightarrow> string" where
  "str_dec n = (if n < 10 then [digit_char n] else str_dec (n div 10) @ [digit_char (n mod 10)])"
  by pat_completeness auto
termination
  by (relation "measure nat") auto

declare str_dec.simps [simp del]

definition fixed_04f :: "rat \<Rightarrow> string" where
  "fixed_04f x =
     (let n = round_half_even (\<bar>x\<bar> * 10000) in
      (if x < 0 then ''-'' else [])
      @ str_dec (n div 10000) @ ''.''
      @ [digit_char (n div 1000 mod 10), digit_char (n div 100 mod 10),
         digit_char (n div 10 mod 10), digit_char (n mod 10)])"

definition format_04f :: "pyfloat \<Rightarrow> string" where
  "format_04f x =
     (case x of
        Finite q \<Rightarrow> fixed_04f q
      | NegZero \<Rightarrow> ''-0.0000''
      | PosInf \<Rightarrow> ''inf''
      | NegInf \<Rightarrow> ''-inf''
      | NaN \<Rightarrow> ''nan'')"

text \<open>A text in fixed notation with four decimals: sign, digits, dot, four digits.\<close>

definition fixed4 :: "string \<Rightarrow> bool" where
  "fixed4 s =
     (let u = (case s of [] \<Rightarrow> s | c # r \<Rightarrow> if c = CHR ''-'' then r else s);
          ip = takeWhile is_digit u;
          r = dropWhile is_digit u
      in ip \<noteq> [] \<and>
         (case r of
            [] \<Rightarrow> False
          | c # fp \<Rightarrow> c = CHR ''.'' \<and> length fp = 4 \<and> list_all is_digit fp))"

subsection \<open>Other library functions of Python the script uses\<close>

text \<open>
  \<^verbatim>\<open>bytes.decode('utf-8')\<close>: the text, when the bytes are well-formed UTF-8 (no
  overlong form, no surrogate, nothing above U+10FFFF), and \<^verbatim>\<open>UnicodeDecodeError\<close>
  otherwise. \<open>utf8_scan k lo hi\<close> reads the bytes with \<open>k\<close> continuation bytes still
  due, the next of them between \<open>lo\<close> and \<open>hi\<close>.
\<close>

definition byte :: "char \<Rightarrow> int" where
  "byte c = of_char c"

fun utf8_scan :: "nat \<Rightarrow> int \<Rightarrow> int \<Rightarrow> string \<Rightarrow> bool" where
  "utf8_scan k lo hi [] = (k = 0)"
| "utf8_scan (Suc k) lo hi (c # cs) =
     (lo \<le> byte c \<and> byte c \<le> hi \<and> utf8_scan k 0x80 0xBF cs)"
| "utf8_scan 0 lo hi (c # cs) =
     (let b = byte c in
      if b < 0x80 then utf8_scan 0 0x80 0xBF cs
      else if 0xC2 \<le> b \<and> b \<le> 0xDF then utf8_scan 1 0x80 0xBF cs
      else if b = 0xE0 then utf8_scan 2 0xA0 0xBF cs
      else if b = 0xED then utf8_scan 2 0x80 0x9F cs
      else if 0xE1 \<le> b \<and> b \<le> 0xEF then utf8_scan 2 0x80 0xBF cs
      else if b = 0xF0 then utf8_scan 3 0x90 0xBF cs
      else if 0xF1 \<le> b \<and> b \<le> 0xF3 then utf8_scan 3 0x80 0xBF cs
      else if b = 0xF4 then utf8_scan 3 0x80 0x8F cs
      else False)"

definition valid_utf8 :: "string \<Rightarrow> bool" where
  "valid_utf8 bs = utf8_scan 0 0x80 0xBF bs"

definition decode_utf8 :: "string \<Rightarrow> py_error + string" where
  "decode_utf8 bs = (if valid_utf8 bs then Inr bs else Inl UnicodeDecodeError)"

text \<open>
  \<^verbatim>\<open>str.splitlines\<close>: the line boundaries are line feed, vertical tab, form feed,
  carriage return (with a line feed after it as one boundary), the separators 0x1C to
  0x1E, and, in their UTF-8 forms, the next-line character U+0085 and the line and
  paragraph separators U+2028 and U+2029. A text that ends in a boundary has no empty
  last line. \<open>boundary_length\<close> is the number of bytes of the boundary a text begins
  with, 0 when it begins with none.
\<close>

definition boundary_length :: "string \<Rightarrow> nat" where
  "boundary_length s =
     (if strip_prefix [CHR 0x0D, CHR 0x0A] s \<noteq> None then 2
      else if strip_prefix [CHR 0xC2, CHR 0x85] s \<noteq> None then 2
      else if strip_prefix [CHR 0xE2, CHR 0x80, CHR 0xA8] s \<noteq> None then 3
      else if strip_prefix [CHR 0xE2, CHR 0x80, CHR 0xA9] s \<noteq> None then 3
      else (case s of
              [] \<Rightarrow> 0
            | c # cs \<Rightarrow>
                if c \<in> set [CHR 0x0A, CHR 0x0B, CHR 0x0C, CHR 0x0D, CHR 0x1C, CHR 0x1D, CHR 0x1E]
                then 1 else 0))"

fun splitlines_from :: "nat \<Rightarrow> string \<Rightarrow> string \<Rightarrow> string list" where
  "splitlines_from skip cur [] = (if cur = [] then [] else [cur])"
| "splitlines_from (Suc skip) cur (c # cs) = splitlines_from skip cur cs"
| "splitlines_from 0 cur (c # cs) =
     (case boundary_length (c # cs) of
        0 \<Rightarrow> splitlines_from 0 (cur @ [c]) cs
      | Suc n \<Rightarrow> cur # splitlines_from n [] cs)"

definition splitlines :: "string \<Rightarrow> string list" where
  "splitlines s = splitlines_from 0 [] s"

text \<open>
  \<^verbatim>\<open>os.path.dirname\<close> (POSIX): the text up to the last slash, without the slashes that
  end it unless it consists of slashes only.
\<close>

definition is_slash :: "char \<Rightarrow> bool" where
  "is_slash c = (c = CHR ''/'')"

definition not_slash :: "char \<Rightarrow> bool" where
  "not_slash c = (c \<noteq> CHR ''/'')"

definition dirname :: "string \<Rightarrow> string" where
  "dirname p =
     (let head = rev (dropWhile not_slash (rev p)) in
      if head \<noteq> [] \<and> \<not> list_all is_slash head
      then rev (dropWhile is_slash (rev head)) else head)"

subsection \<open>The outside\<close>

text \<open>
  A command line built with the \<^verbatim>\<open>ffmpeg\<close> library is modelled by what it asks for:
  the silence detection over the input, with \<^verbatim>\<open>ss\<close> and \<^verbatim>\<open>t\<close> when given, the
  threshold in dB and the duration (lines 55 to 60); or the extraction of a span, with the
  padding when it is positive, into an output file that is overwritten (lines 141 to 151).
  Building the command line is taken not to raise.
\<close>

datatype command =
    SilenceDetect string "pyfloat option" "pyfloat option" int pyfloat
  | Extract string pyfloat pyfloat "pyfloat option" string

text \<open>What \<^verbatim>\<open>communicate\<close> returns of a child: its exit status and the bytes of its stderr.\<close>

record proc_result =
  returncode :: int
  stderr_bytes :: string

record metadata_entry =
  filename :: string
  start_text :: string
  end_text :: string
  duration_text :: string

text \<open>
  What the script has done to the outside so far: the child processes it launched, the
  texts it wrote to \<^verbatim>\<open>sys.stderr\<close>, the directories it created and the documents it
  dumped with \<^verbatim>\<open>json.dump\<close> (a document is the list of entries that is serialised).
  Log lines are not modelled, and writing to \<^verbatim>\<open>sys.stderr\<close> is taken not to raise.
\<close>

record world =
  launched :: "command list"
  stderr_written :: "string list"
  dirs_made :: "string list"
  files_written :: "(string \<times> metadata_entry list) list"

text \<open>
  What the outside answers, possibly depending on what happened before: for
  \<^verbatim>\<open>subprocess.Popen\<close> and \<^verbatim>\<open>communicate\<close>, the exception \<^verbatim>\<open>Popen\<close> raises (when the
  program cannot be started) or the result of the child; the error number with which
  \<^verbatim>\<open>os.makedirs\<close> or \<^verbatim>\<open>open(..., 'w')\<close> fails (\<open>None\<close> when it succeeds);
  \<^verbatim>\<open>os.path.isdir\<close>; and the file name \<^verbatim>\<open>out_pattern.format(i, i=i)\<close> or the exception
  it raises.
\<close>

record env =
  popen :: "world \<Rightarrow> command \<Rightarrow> py_error + proc_result"
  os_makedirs :: "world \<Rightarrow> string \<Rightarrow> int option"
  os_isdir :: "world \<Rightarrow> string \<Rightarrow> bool"
  open_for_writing :: "world \<Rightarrow> string \<Rightarrow> int option"
  str_format :: "string \<Rightarrow> nat \<Rightarrow> py_error + string"

definition EEXIST :: int where
  "EEXIST = 17"

subsection \<open>\<^verbatim>\<open>get_chunk_times\<close> (lines 45 to 98), with floats\<close>

text \<open>
  Lines 70 to 98 once more, as \<open>loop_body\<close>, \<open>scan_lines\<close>, \<open>post_process\<close> and
  \<open>chunk_times_of\<close> above, now with the doubles that \<^verbatim>\<open>float\<close>, \<^verbatim>\<open>+\<close> and \<^verbatim>\<open>or\<close>
  give. \<^verbatim>\<open>hours * 3600 + minutes * 60\<close> is an integer, exact as a float.
\<close>

record float_state =
  float_starts :: "pyfloat list"
  float_ends :: "pyfloat list"
  float_end_time :: "pyfloat option"

definition float_loop_body :: "pyfloat \<Rightarrow> float_state \<Rightarrow> string \<Rightarrow> py_error + float_state" where
  "float_loop_body start_time s line =
     (let silence_start_match = re_search silence_start_re line;
          silence_end_match = re_search silence_end_re line;
          total_duration_match = re_search total_duration_re line
      in case silence_start_match of
           Some start \<Rightarrow>
             (case float_of_text start of
                Inl e \<Rightarrow> Inl e
              | Inr t \<Rightarrow>
                  Inr (if length (float_starts s) = 0
                       then s\<lparr>float_ends := float_ends s @ [t],
                              float_starts := float_starts s @ [pyfloat_or start_time (Finite 0)]\<rparr>
                       else s\<lparr>float_ends := float_ends s @ [t]\<rparr>))
         | None \<Rightarrow>
             (case silence_end_match of
                Some end \<Rightarrow>
                  (case float_of_text end of
                     Inl e \<Rightarrow> Inl e
                   | Inr t \<Rightarrow> Inr (s\<lparr>float_starts := float_starts s @ [t]\<rparr>))
              | None \<Rightarrow>
                  (case total_duration_match of
                     Some (hours, minutes, seconds) \<Rightarrow>
                       (case float_of_text seconds of
                          Inl e \<Rightarrow> Inl e
                        | Inr sec \<Rightarrow>
                            Inr (s\<lparr>float_end_time :=
                                   Some (float_add
                                     (Finite (of_int (py_int hours * 3600 + py_int minutes * 60)))
                                     sec)\<rparr>))
                   | None \<Rightarrow> Inr s)))"

fun float_scan_lines :: "pyfloat \<Rightarrow> string list \<Rightarrow> float_state \<Rightarrow> py_error + float_state" where
  "float_scan_lines start_time [] s = Inr s"
| "float_scan_lines start_time (line # lines) s =
     (case float_loop_body start_time s line of
        Inl e \<Rightarrow> Inl e
      | Inr s' \<Rightarrow> float_scan_lines start_time lines s')"

definition float_post_process :: "pyfloat \<Rightarrow> float_state \<Rightarrow> float_state" where
  "float_post_process start_time s =
     (let s1 = (if length (float_starts s) = 0
                then s\<lparr>float_starts := float_starts s @ [start_time]\<rparr> else s)
      in if length (float_starts s1) > length (float_ends s1)
         then s1\<lparr>float_ends := float_ends s1
                    @ [opt_pyfloat_or (float_end_time s1) (Finite 10000000)]\<rparr>
         else s1)"

definition float_default_start :: "pyfloat option \<Rightarrow> pyfloat" where
  "float_default_start start_time = (case start_time of Some t \<Rightarrow> t | None \<Rightarrow> Finite 0)"

definition float_chunk_times_of ::
  "string list \<Rightarrow> pyfloat option \<Rightarrow> pyfloat option \<Rightarrow> py_error + (pyfloat \<times> pyfloat) list" where
  "float_chunk_times_of lines start_time end_time_arg =
     (case float_scan_lines (float_default_start start_time) lines
             \<lparr>float_starts = [], float_ends = [], float_end_time = end_time_arg\<rparr> of
        Inl e \<Rightarrow> Inl e
      | Inr s \<Rightarrow>
          (let s' = float_post_process (float_default_start start_time) s
           in Inr (zip (float_starts s') (float_ends s'))))"

text \<open>
  The scan with floats and the scan with exact values go the same way: whether an entry
  is appended depends on the matches and on the lengths of the two sequences only, which
  \<open>same_lengths\<close> relates (\<open>float_chunk_times_same\<close>).
\<close>

definition same_lengths :: "scan_state \<Rightarrow> float_state \<Rightarrow> bool" where
  "same_lengths s fs =
     (length (chunk_starts s) = length (float_starts fs)
      \<and> length (chunk_ends s) = length (float_ends fs))"

definition analysis_command ::
  "string \<Rightarrow> int \<Rightarrow> pyfloat \<Rightarrow> pyfloat option \<Rightarrow> pyfloat option \<Rightarrow> command" where
  "analysis_command in_file threshold duration start_time end_time_arg =
     SilenceDetect in_file start_time
       (case end_time_arg of
          None \<Rightarrow> None
        | Some e \<Rightarrow> Some (float_sub e (float_default_start start_time)))
       threshold duration"

text \<open>
  Lines 54 to 68. The child is launched once and waited for. Its stderr is decoded (line
  63) before its status is looked at, so that bytes that are not UTF-8 raise there. A
  status other than 0 then writes the text to \<^verbatim>\<open>sys.stderr\<close> and raises
  \<^verbatim>\<open>SystemExit(1)\<close> (lines 64 to 66); otherwise the lines of the text are scanned.
\<close>

definition get_chunk_times ::
  "env \<Rightarrow> string \<Rightarrow> int \<Rightarrow> pyfloat \<Rightarrow> pyfloat option \<Rightarrow> pyfloat option \<Rightarrow> world
     \<Rightarrow> (py_error + (pyfloat \<times> pyfloat) list) \<times> world" where
  "get_chunk_times env in_file threshold duration start_time end_time_arg w =
     (let cmd = analysis_command in_file threshold duration start_time end_time_arg in
      case popen env w cmd of
        Inl e \<Rightarrow> (Inl e, w)
      | Inr child \<Rightarrow>
          (let w1 = w\<lparr>launched := launched w @ [cmd]\<rparr> in
           case decode_utf8 (stderr_bytes child) of
             Inl e \<Rightarrow> (Inl e, w1)
           | Inr output \<Rightarrow>
               if returncode child \<noteq> 0
               then (Inl (SystemExit 1), w1\<lparr>stderr_written := stderr_written w1 @ [output]\<rparr>)
               else (float_chunk_times_of (splitlines output) start_time end_time_arg, w1)))"

subsection \<open>\<^verbatim>\<open>_makedirs\<close> (lines 101 to 108)\<close>

definition makedirs :: "env \<Rightarrow> string \<Rightarrow> world \<Rightarrow> py_error option \<times> world" where
  "makedirs env path w =
     (if path = [] then (None, w)
      else (case os_makedirs env w path of
              None \<Rightarrow> (None, w\<lparr>dirs_made := dirs_made w @ [path]\<rparr>)
            | Some errno \<Rightarrow>
                if errno \<noteq> EEXIST \<or> \<not> os_isdir env w path
                then (Some (OSError errno), w) else (None, w)))"

subsection \<open>\<^verbatim>\<open>split_audio\<close> (lines 111 to 163)\<close>

record split_args =
  in_filename :: string
  out_pattern :: string
  silence_threshold :: int
  silence_duration :: pyfloat
  start_time_arg :: "pyfloat option"
  end_time_arg :: "pyfloat option"
  padding :: pyfloat
  metadata_filename :: "string option"
  verbose :: bool

definition extract_command :: "split_args \<Rightarrow> string \<Rightarrow> pyfloat \<times> pyfloat \<Rightarrow> command" where
  "extract_command a out_filename chunk =
     (case chunk of (start_t, end_t) \<Rightarrow>
        Extract (in_filename a) start_t (float_sub end_t start_t)
          (if float_positive (padding a) then Some (padding a) else None) out_filename)"

definition metadata_of :: "string \<Rightarrow> pyfloat \<times> pyfloat \<Rightarrow> metadata_entry" where
  "metadata_of out_filename chunk =
     (case chunk of (start_t, end_t) \<Rightarrow>
        \<lparr>filename = out_filename,
         start_text = format_04f start_t,
         end_text = format_04f end_t,
         duration_text = format_04f (float_sub end_t start_t)\<rparr>)"

text \<open>
  The body of the loop, lines 126 to 158, for the chunk at index \<open>i\<close>: the file name,
  its directory, the metadata entry, then the child. A status other than 0 decodes the
  child's stderr and writes it to \<^verbatim>\<open>sys.stderr\<close> (line 158), which raises when the
  bytes are not UTF-8; in verbose mode nothing is captured and nothing decoded. The
  result is the exception raised, if any, the metadata list and the world.
\<close>

definition split_chunk ::
  "env \<Rightarrow> split_args \<Rightarrow> nat \<Rightarrow> pyfloat \<times> pyfloat \<Rightarrow> metadata_entry list \<Rightarrow> world
     \<Rightarrow> py_error option \<times> metadata_entry list \<times> world" where
  "split_chunk env a i chunk metadata w =
     (case str_format env (out_pattern a) i of
        Inl e \<Rightarrow> (Some e, metadata, w)
      | Inr out_filename \<Rightarrow>
          (case makedirs env (dirname out_filename) w of
             (Some e, w1) \<Rightarrow> (Some e, metadata, w1)
           | (None, w1) \<Rightarrow>
               (let metadata1 = metadata @ [metadata_of out_filename chunk];
                    cmd = extract_command a out_filename chunk
                in case popen env w1 cmd of
                     Inl e \<Rightarrow> (Some e, metadata1, w1)
                   | Inr child \<Rightarrow>
                       (let w2 = w1\<lparr>launched := launched w1 @ [cmd]\<rparr> in
                        if returncode child \<noteq> 0 \<and> \<not> verbose a
                        then (case decode_utf8 (stderr_bytes child) of
                                Inl e \<Rightarrow> (Some e, metadata1, w2)
                              | Inr text \<Rightarrow>
                                  (None, metadata1,
                                   w2\<lparr>stderr_written := stderr_written w2 @ [text]\<rparr>))
                        else (None, metadata1, w2)))))"

fun split_chunks ::
  "env \<Rightarrow> split_args \<Rightarrow> nat \<Rightarrow> (pyfloat \<times> pyfloat) list \<Rightarrow> metadata_entry list \<Rightarrow> world
     \<Rightarrow> py_error option \<times> metadata_entry list \<times> world" where
  "split_chunks env a i [] metadata w = (None, metadata, w)"
| "split_chunks env a i (chunk # chunks) metadata w =
     (case split_chunk env a i chunk metadata w of
        (Some e, metadata1, w1) \<Rightarrow> (Some e, metadata1, w1)
      | (None, metadata1, w1) \<Rightarrow> split_chunks env a (Suc i) chunks metadata1 w1)"

text \<open>
  Lines 160 to 163: the metadata document, when a file name was given. Once the file is
  open, writing the document is taken not to fail.
\<close>

definition dump_metadata ::
  "env \<Rightarrow> string option \<Rightarrow> metadata_entry list \<Rightarrow> world \<Rightarrow> py_error option \<times> world" where
  "dump_metadata env metadata_file metadata w =
     (case metadata_file of
        None \<Rightarrow> (None, w)
      | Some f \<Rightarrow>
          (case makedirs env (dirname f) w of
             (Some e, w1) \<Rightarrow> (Some e, w1)
           | (None, w1) \<Rightarrow>
               (case open_for_writing env w1 f of
                  Some errno \<Rightarrow> (Some (OSError errno), w1)
                | None \<Rightarrow> (None, w1\<lparr>files_written := files_written w1 @ [(f, metadata)]\<rparr>))))"

definition split_audio :: "env \<Rightarrow> split_args \<Rightarrow> world \<Rightarrow> py_error option \<times> world" where
  "split_audio env a w =
     (case get_chunk_times env (in_filename a) (silence_threshold a) (silence_duration a)
             (start_time_arg a) (end_time_arg a) w of
        (Inl e, w1) \<Rightarrow> (Some e, w1)
      | (Inr chunk_times, w1) \<Rightarrow>
          (case split_chunks env a 0 chunk_times [] w1 of
             (Some e, metadata, w2) \<Rightarrow> (Some e, w2)
           | (None, metadata, w2) \<Rightarrow> dump_metadata env (metadata_filename a) metadata w2))"

text \<open>
  The exit status of the process that runs \<^verbatim>\<open>split_audio\<close> as its last statement (line
  171): 0 when it returns, the argument of \<^verbatim>\<open>SystemExit\<close>, and 1 for an exception that
  nothing catches.
\<close>

definition exit_status :: "py_error option \<Rightarrow> int" where
  "exit_status r = (case r of None \<Rightarrow> 0 | Some (SystemExit n) \<Rightarrow> n | Some e \<Rightarrow> 1)"

subsection \<open>Notions for the statements about a run\<close>

definition analysis_of :: "split_args \<Rightarrow> command" where
  "analysis_of a =
     analysis_command (in_filename a) (silence_threshold a) (silence_duration a)
       (start_time_arg a) (end_time_arg a)"

definition chunk_times_run ::
  "env \<Rightarrow> split_args \<Rightarrow> world \<Rightarrow> (py_error + (pyfloat \<times> pyfloat) list) \<times> world" where
  "chunk_times_run env a w =
     get_chunk_times env (in_filename a) (silence_threshold a) (silence_duration a)
       (start_time_arg a) (end_time_arg a) w"

text \<open>
  The file name of the chunk at index \<open>i\<close> (when the formatting does not raise), the
  chunks with their indices as \<^verbatim>\<open>enumerate\<close> gives them, and the metadata and the
  commands of a run in which every chunk is processed.
\<close>

definition out_name :: "env \<Rightarrow> split_args \<Rightarrow> nat \<Rightarrow> string" where
  "out_name env a i = (case str_format env (out_pattern a) i of Inr f \<Rightarrow> f | Inl e \<Rightarrow> [])"

definition enumerate_from :: "nat \<Rightarrow> 'a list \<Rightarrow> (nat \<times> 'a) list" where
  "enumerate_from i xs = zip [i ..< i + length xs] xs"

definition all_metadata ::
  "env \<Rightarrow> split_args \<Rightarrow> nat \<Rightarrow> (pyfloat \<times> pyfloat) list \<Rightarrow> metadata_entry list" where
  "all_metadata env a i chunks =
     map (\<lambda>(k, chunk). metadata_of (out_name env a k) chunk) (enumerate_from i chunks)"

definition all_commands ::
  "env \<Rightarrow> split_args \<Rightarrow> nat \<Rightarrow> (pyfloat \<times> pyfloat) list \<Rightarrow> command list" where
  "all_commands env a i chunks =
     map (\<lambda>(k, chunk). extract_command a (out_name env a k) chunk) (enumerate_from i chunks)"

text \<open>
  The outside answers every call the loop makes for a chunk without an exception: the
  formatting of the file name, the making of its directory, the launch of the child, and
  the decoding of the child's stderr in the one case in which it is decoded (a status other
  than 0 outside verbose mode). Nothing is asked of the status itself. \<open>calls_answer\<close>
  asks this of every chunk of the run, each in the world the chunks before it have left.
\<close>

definition chunk_calls_answer ::
  "env \<Rightarrow> split_args \<Rightarrow> nat \<Rightarrow> pyfloat \<times> pyfloat \<Rightarrow> world \<Rightarrow> bool" where
  "chunk_calls_answer env a i chunk w =
     (case str_format env (out_pattern a) i of
        Inl e \<Rightarrow> False
      | Inr out_filename \<Rightarrow>
          (case makedirs env (dirname out_filename) w of
             (Some e, w1) \<Rightarrow> False
           | (None, w1) \<Rightarrow>
               (case popen env w1 (extract_command a out_filename chunk) of
                  Inl e \<Rightarrow> False
                | Inr child \<Rightarrow>
                    returncode child = 0 \<or> verbose a \<or> valid_utf8 (stderr_bytes child))))"

fun calls_answer ::
  "env \<Rightarrow> split_args \<Rightarrow> nat \<Rightarrow> (pyfloat \<times> pyfloat) list \<Rightarrow> world \<Rightarrow> bool" where
  "calls_answer env a i [] w = True"
| "calls_answer env a i (chunk # chunks) w =
     (chunk_calls_answer env a i chunk w
      \<and> calls_answer env a (Suc i) chunks (snd (snd (split_chunk env a i chunk [] w))))"

text \<open>The world the loop leaves, and the outside letting the metadata file be written in it.\<close>

definition loop_world :: "env \<Rightarrow> split_args \<Rightarrow> (pyfloat \<times> pyfloat) list \<Rightarrow> world \<Rightarrow> world" where
  "loop_world env a chunks w = snd (snd (split_chunks env a 0 chunks [] w))"

definition dump_answers :: "env \<Rightarrow> string option \<Rightarrow> world \<Rightarrow> bool" where
  "dump_answers env metadata_file w =
     (case metadata_file of
        None \<Rightarrow> True
      | Some f \<Rightarrow>
          (case makedirs env (dirname f) w of
             (Some e, w1) \<Rightarrow> False
           | (None, w1) \<Rightarrow> open_for_writing env w1 f = None))"

subsection \<open>An example run\<close>

text \<open>
  A recording of 8 seconds, silent from 3.2 to 5.0, split into \<^verbatim>\<open>out/chunk_0.wav\<close> and
  \<^verbatim>\<open>out/chunk_1.wav\<close> without padding. The outside is given by the exit status and the
  stderr of the analysis and of every extraction; a directory can always be created, and
  creating it again fails with \<open>EEXIST\<close>; a file can always be written.
\<close>

definition demo_output :: string where
  "demo_output =
     ''[silencedetect @ 0x1] silence_start: 3.2'' @ [CHR 0x0A]
     @ ''[silencedetect @ 0x1] silence_end: 5 | silence_duration: 1.8'' @ [CHR 0x0A]
     @ ''size=N/A time=00:00:08.00 bitrate=N/A speed=500x'' @ [CHR 0x0A]"

definition demo_popen ::
  "int \<Rightarrow> string \<Rightarrow> int \<Rightarrow> string \<Rightarrow> world \<Rightarrow> command \<Rightarrow> py_error + proc_result" where
  "demo_popen analysis_status analysis_stderr extraction_status extraction_stderr w cmd =
     (case cmd of
        SilenceDetect f ss t n d \<Rightarrow>
          Inr \<lparr>returncode = analysis_status, stderr_bytes = analysis_stderr\<rparr>
      | Extract f ss t p out \<Rightarrow>
          Inr \<lparr>returncode = extraction_status, stderr_bytes = extraction_stderr\<rparr>)"

definition demo_env :: "int \<Rightarrow> string \<Rightarrow> int \<Rightarrow> string \<Rightarrow> env" where
  "demo_env analysis_status analysis_stderr extraction_status extraction_stderr =
     \<lparr>popen = demo_popen analysis_status analysis_stderr extraction_status extraction_stderr,
      os_makedirs = (\<lambda>w p. if p \<in> set (dirs_made w) then Some EEXIST else None),
      os_isdir = (\<lambda>w p. p \<in> set (dirs_made w)),
      open_for_writing = (\<lambda>w f. None),
      str_format = (\<lambda>pattern i. Inr (''out/chunk_'' @ str_dec (int i) @ ''.wav''))\<rparr>"

definition demo_args :: "string option \<Rightarrow> split_args" where
  "demo_args metadata_file =
     \<lparr>in_filename = ''in.wav'', out_pattern = ''out/chunk_{}.wav'',
      silence_threshold = - 30, silence_duration = round_double (3 / 10),
      start_time_arg = None, end_time_arg = None, padding = Finite 0,
      metadata_filename = metadata_file, verbose = False\<rparr>"

definition empty_world :: world where
  "empty_world = \<lparr>launched = [], stderr_written = [], dirs_made = [], files_written = []\<rparr>"

section \<open>Properties of the timeline reconstruction\<close>

subsection \<open>The loop body reads one event\<close>

lemma float_or_zero: "float_or x 0 = x"
  by (simp add: float_or_def)

lemma loop_body_parse_line:
  "loop_body st s line =
     (case parse_line line of
        Inl e \<Rightarrow> Inl e
      | Inr None \<Rightarrow> Inr s
      | Inr (Some ev) \<Rightarrow> Inr (apply_event st s ev))"
  by (simp add: loop_body_def parse_line_def split: option.splits sum.splits prod.splits)

lemma re_search_Some: "re_search m line = Some g \<Longrightarrow> \<exists>r. m r = Some g"
  by (induction line) (auto split: option.splits)

lemma list_all_takeWhile: "list_all P (takeWhile P xs)"
  by (induction xs) auto

lemma takeWhile_digits_dot:
  "list_all is_digit ds \<Longrightarrow> takeWhile is_digit (ds @ CHR ''.'' # t) = ds"
  by (induction ds) (auto simp: is_digit_def)

lemma dropWhile_digits_dot:
  "list_all is_digit ds \<Longrightarrow> dropWhile is_digit (ds @ CHR ''.'' # t) = CHR ''.'' # t"
  by (induction ds) (auto simp: is_digit_def)

lemma takeWhile_digits: "list_all is_digit ds \<Longrightarrow> takeWhile is_digit ds = ds"
  by (induction ds) auto

lemma dropWhile_digits: "list_all is_digit ds \<Longrightarrow> dropWhile is_digit ds = []"
  by (induction ds) auto

lemma py_float_digits:
  "ds \<noteq> [] \<Longrightarrow> list_all is_digit ds \<Longrightarrow> py_float ds = Inr (of_int (dec_val ds))"
  by (simp add: py_float_def takeWhile_digits dropWhile_digits)

lemma py_float_digits_dot:
  "ds \<noteq> [] \<Longrightarrow> list_all is_digit ds \<Longrightarrow> list_all is_digit fs \<Longrightarrow>
   py_float (ds @ CHR ''.'' # fs) =
     Inr (of_int (dec_val ds) + of_int (dec_val fs) / 10 ^ length fs)"
  by (simp add: py_float_def takeWhile_digits_dot dropWhile_digits_dot)

lemma py_float_number:
  assumes "number_re r = Some (g, rest)"
  shows "\<exists>t. py_float g = Inr t"
proof -
  let ?d1 = "takeWhile is_digit r"
  from assms have ne: "?d1 \<noteq> []"
    by (auto simp: number_re_def Let_def split: if_splits)
  have d1: "list_all is_digit ?d1"
    by (rule list_all_takeWhile)
  from assms consider "g = ?d1" | t where "g = ?d1 @ CHR ''.'' # takeWhile is_digit t"
    by (auto simp: number_re_def Let_def split: if_splits list.splits)
  then show ?thesis
  proof cases
    case 1
    with ne d1 show ?thesis by (simp add: py_float_digits)
  next
    case 2
    with ne d1 show ?thesis by (simp add: py_float_digits_dot list_all_takeWhile)
  qed
qed

lemma parses_silence_start:
  assumes "re_search silence_start_re line = Some g"
  shows "\<exists>t. py_float g = Inr t"
proof -
  from re_search_Some [OF assms] obtain r where "silence_start_re r = Some g" ..
  then obtain r' rest where "number_re r' = Some (g, rest)"
    by (auto simp: silence_start_re_def split: option.splits if_splits)
  then show ?thesis by (rule py_float_number)
qed

lemma parses_silence_end:
  assumes "re_search silence_end_re line = Some g"
  shows "\<exists>t. py_float g = Inr t"
proof -
  from re_search_Some [OF assms] obtain r where "silence_end_re r = Some g" ..
  then obtain r' rest where "number_re r' = Some (g, rest)"
    by (auto simp: silence_end_re_def split: option.splits if_splits)
  then show ?thesis by (rule py_float_number)
qed

lemma scan_lines_events:
  "list_all parses lines \<Longrightarrow> scan_lines st lines s = Inr (foldl (apply_event st) s (events lines))"
proof (induction lines arbitrary: s)
  case Nil
  then show ?case by simp
next
  case (Cons line lines)
  then show ?case
    by (auto simp: loop_body_parse_line parses_def split: sum.splits option.splits)
qed

lemma fold_chunk_ends:
  "chunk_ends (foldl (apply_event st) s evs) = chunk_ends s @ start_times evs"
proof (induction evs arbitrary: s)
  case Nil
  show ?case by simp
next
  case (Cons ev evs)
  show ?case by (cases ev) (simp_all add: Cons.IH)
qed

lemma fold_end_time:
  "end_time (foldl (apply_event st) s evs) = reported_end evs (end_time s)"
proof (induction evs arbitrary: s)
  case Nil
  show ?case by simp
next
  case (Cons ev evs)
  show ?case by (cases ev) (simp_all add: Cons.IH)
qed

lemma fold_chunk_starts_nonempty:
  "chunk_starts s \<noteq> [] \<Longrightarrow>
   chunk_starts (foldl (apply_event st) s evs) = chunk_starts s @ end_times evs"
proof (induction evs arbitrary: s)
  case Nil
  show ?case by simp
next
  case (Cons ev evs)
  then show ?case by (cases ev) simp_all
qed

lemma fold_chunk_starts_empty:
  "chunk_starts s = [] \<Longrightarrow>
   chunk_starts (foldl (apply_event st) s evs) = leading_start st evs @ end_times evs"
proof (induction evs arbitrary: s)
  case Nil
  then show ?case by (simp add: leading_start_def)
next
  case (Cons ev evs)
  show ?case
  proof (cases ev)
    case (SilenceStart t)
    with Cons.prems show ?thesis
      by (simp add: fold_chunk_starts_nonempty leading_start_def float_or_zero)
  next
    case (SilenceEnd t)
    with Cons.prems show ?thesis
      by (simp add: fold_chunk_starts_nonempty leading_start_def)
  next
    case (DurationReport d)
    with Cons.prems Cons.IH [of "s\<lparr>end_time := Some d\<rparr>"] show ?thesis
      by (simp add: leading_start_def)
  qed
qed

lemma chunk_times_events:
  assumes "list_all parses lines"
  shows "chunk_times_of lines st en = Inr (pairing (default_start st) (events lines) en)"
  by (simp add: chunk_times_of_def scan_lines_events [OF assms] post_process_def
      no_silence_found_def finished_with_non_silence_def pairing_def Let_def
      fold_chunk_ends fold_end_time fold_chunk_starts_empty)

subsection \<open>The pairing, by the first silence marker of the stream\<close>

lemma end_times_markers: "end_times (markers evs) = end_times evs"
  by (induction evs rule: markers.induct) simp_all

lemma start_times_markers: "start_times (markers evs) = start_times evs"
  by (induction evs rule: markers.induct) simp_all

lemma pairing_no_markers:
  assumes "markers evs = []"
  shows "pairing d evs en = [(d, opt_float_or (reported_end evs en) 10000000)]"
proof -
  from assms have "end_times evs = []" "start_times evs = []"
    using end_times_markers [of evs] start_times_markers [of evs] by simp_all
  with assms show ?thesis by (simp add: pairing_def leading_start_def)
qed

lemma pairing_end_first:
  assumes "markers evs = SilenceEnd a # m"
  shows "pairing d evs en =
           zip (a # end_times m)
               (start_times m @ (if length (end_times m) + 1 > length (start_times m)
                                 then [opt_float_or (reported_end evs en) 10000000] else []))"
proof -
  from assms have "end_times evs = a # end_times m" "start_times evs = start_times m"
    using end_times_markers [of evs] start_times_markers [of evs] by simp_all
  with assms show ?thesis by (simp add: pairing_def leading_start_def)
qed

lemma pairing_start_first:
  assumes "markers evs = SilenceStart b # m"
  shows "pairing d evs en =
           (d, b) # zip (end_times m)
               (start_times m @ (if length (end_times m) > length (start_times m)
                                 then [opt_float_or (reported_end evs en) 10000000] else []))"
proof -
  from assms have "end_times evs = end_times m" "start_times evs = b # start_times m"
    using end_times_markers [of evs] start_times_markers [of evs] by simp_all
  with assms show ?thesis by (simp add: pairing_def leading_start_def)
qed

lemma markers_cases:
  obtains "markers evs = []"
  | a m where "markers evs = SilenceEnd a # m"
  | b m where "markers evs = SilenceStart b # m"
proof (cases "markers evs")
  case Nil
  then show ?thesis using that by simp
next
  case (Cons ev m)
  have "\<And>d. ev \<noteq> DurationReport d"
  proof
    fix d assume "ev = DurationReport d"
    with Cons have "DurationReport d \<in> set (markers evs)" by simp
    then show False by (induction evs rule: markers.induct) auto
  qed
  with Cons show ?thesis using that by (cases ev) auto
qed

lemma lt_effective_end:
  "x < effective_end evs en \<Longrightarrow> x < opt_float_or (reported_end evs en) 10000000"
  by (auto simp: effective_end_def opt_float_or_def float_or_def split: option.splits)

lemma zip_alternating:
  "alternating_from_end m \<Longrightarrow> sorted_wrt (<) (map event_time m @ ts) \<Longrightarrow>
   (a, b) \<in> set (zip (end_times m) (start_times m @ ts)) \<Longrightarrow> a < b"
proof (induction m rule: alternating_from_end.induct)
  case 1
  then show ?case by simp
next
  case (2 x)
  then show ?case by (cases ts) auto
next
  case (3 x y m)
  then show ?case by auto
qed simp_all

lemma sorted_effective_end:
  assumes "sorted_wrt (<) (xs @ [effective_end evs en])"
  shows "sorted_wrt (<) (xs @ [opt_float_or (reported_end evs en) 10000000])"
  using assms by (auto simp: sorted_wrt_append intro: lt_effective_end)

lemma pairing_increasing:
  assumes alt: "alternating (markers evs)"
      and srt: "sorted_wrt (<) (d # map event_time (markers evs) @ [effective_end evs en])"
      and mem: "(a, b) \<in> set (pairing d evs en)"
  shows "a < b"
proof -
  let ?E = "opt_float_or (reported_end evs en) 10000000"
  show ?thesis
  proof (cases evs rule: markers_cases)
    case 1
    with srt mem show ?thesis
      by (simp add: pairing_no_markers lt_effective_end)
  next
    case (2 x m)
    let ?ts = "if length (end_times m) + 1 > length (start_times m) then [?E] else []"
    from alt 2 have "alternating_from_end (SilenceEnd x # m)"
      by (simp add: alternating_def)
    moreover from srt 2 have "sorted_wrt (<) (map event_time (SilenceEnd x # m) @ [?E])"
      using sorted_effective_end [of "map event_time (SilenceEnd x # m)" evs en] by simp
    then have "sorted_wrt (<) (map event_time (SilenceEnd x # m) @ ?ts)"
      by (auto simp: sorted_wrt_append)
    moreover from mem 2
    have "(a, b) \<in> set (zip (end_times (SilenceEnd x # m)) (start_times (SilenceEnd x # m) @ ?ts))"
      by (simp add: pairing_end_first)
    ultimately show ?thesis by (rule zip_alternating)
  next
    case (3 y m)
    let ?ts = "if length (end_times m) > length (start_times m) then [?E] else []"
    from mem 3 consider "a = d" "b = y" | "(a, b) \<in> set (zip (end_times m) (start_times m @ ?ts))"
      by (auto simp: pairing_start_first)
    then show ?thesis
    proof cases
      case 1
      with srt 3 show ?thesis by simp
    next
      case 2
      from alt 3 have "alternating_from_end m"
        by (simp add: alternating_def)
      moreover from srt 3 have "sorted_wrt (<) (map event_time m @ [?E])"
        using sorted_effective_end [of "map event_time m" evs en] by simp
      then have "sorted_wrt (<) (map event_time m @ ?ts)"
        by (auto simp: sorted_wrt_append)
      ultimately show ?thesis using 2 by (rule zip_alternating)
    qed
  qed
qed

lemma pairing_length:
  assumes "length (start_times evs) = n" "length (end_times evs) = n"
  shows "length (pairing d evs en) = (case markers evs of SilenceEnd a # m \<Rightarrow> n | _ \<Rightarrow> n + 1)"
proof (cases evs rule: markers_cases)
  case 1
  then have "start_times evs = []"
    using start_times_markers [of evs] by simp
  with 1 assms show ?thesis
    by (simp add: pairing_no_markers)
next
  case (2 x m)
  then have "start_times evs = start_times m" "end_times evs = x # end_times m"
    using start_times_markers [of evs] end_times_markers [of evs] by simp_all
  with 2 assms show ?thesis
    by (auto simp: pairing_end_first)
next
  case (3 y m)
  then have "start_times evs = y # start_times m" "end_times evs = end_times m"
    using start_times_markers [of evs] end_times_markers [of evs] by simp_all
  with 3 assms show ?thesis
    by (auto simp: pairing_start_first)
qed

section \<open>The claims about the timeline reconstruction\<close>

subsection \<open>Claim C1: the four-line scenario\<close>

text \<open>
  Claim C1, as stated: the stream of the four lines \<^verbatim>\<open>silence_end: 0.500000\<close>,
  \<^verbatim>\<open>silence_start: 3.200000 \<close> (with a blank after the number),
  \<^verbatim>\<open>silence_end: 5.000000\<close> and \<^verbatim>\<open>size=... time=00:00:08.00 bitrate=...\<close>, with no
  start or end time given, yields \<open>[(0.5, 3.2), (5.0, 8.0)]\<close>.

  On these very lines the code finds no silence marker. Both marker patterns begin with a
  blank, which no line has in front of the word; \<^verbatim>\<open>silence_end_re\<close> wants a blank after
  the number, which the first and third line lack; \<^verbatim>\<open>silence_start_re\<close> ends in
  \<^verbatim>\<open>$\<close>, which the blank after \<^verbatim>\<open>3.200000\<close> defeats. Only the progress line matches, and
  the result is the single interval \<open>(0, 8)\<close>.
\<close>

theorem C1_literal_lines_counterexample:
  "chunk_times_of
     [''silence_end: 0.500000'', ''silence_start: 3.200000 '', ''silence_end: 5.000000'',
      ''size=... time=00:00:08.00 bitrate=...''] None None = Inr [(0, 8)]
   \<and> chunk_times_of
     [''silence_end: 0.500000'', ''silence_start: 3.200000 '', ''silence_end: 5.000000'',
      ''size=... time=00:00:08.00 bitrate=...''] None None \<noteq> Inr [(1 / 2, 16 / 5), (5, 8)]"
  by code_simp

text \<open>
  Claim C1, amended: with the delimiters the patterns ask for (a blank before each marker
  word, a blank after the number of a silence end, the end of the line after the number of
  a silence start), the four lines yield exactly \<open>[(0.5, 3.2), (5.0, 8.0)]\<close>.
\<close>

theorem C1_delimited_lines:
  "chunk_times_of
     ['' silence_end: 0.500000 '', '' silence_start: 3.200000'', '' silence_end: 5.000000 '',
      ''size=... time=00:00:08.00 bitrate=...''] None None = Inr [(1 / 2, 16 / 5), (5, 8)]"
  by code_simp

subsection \<open>Claim C2: as many silence starts as silence ends\<close>

text \<open>
  Claim C2, as stated: a stream with \<open>n\<close> silence starts and \<open>n\<close> silence ends yields
  exactly \<open>n\<close> intervals, each with start before end when the event times are
  chronological and within the analysis range.

  The code gives the span before the first silence start an interval of its own (lines
  79 to 81) and closes the span after the last silence end (lines 94 to 96). One silence
  from 3.2 to 5.0 in a recording of 8 seconds is one marker of each kind and two
  intervals; and a recording that begins in silence (a silence start at 0) gets the
  empty first interval \<open>(0, 0)\<close>.
\<close>

theorem C2_equal_counts_counterexample:
  "length (start_times (events ['' silence_start: 3.200000'', '' silence_end: 5.000000 '',
      ''size=... time=00:00:08.00 bitrate=...''])) = 1
   \<and> length (end_times (events ['' silence_start: 3.200000'', '' silence_end: 5.000000 '',
      ''size=... time=00:00:08.00 bitrate=...''])) = 1
   \<and> chunk_times_of ['' silence_start: 3.200000'', '' silence_end: 5.000000 '',
      ''size=... time=00:00:08.00 bitrate=...''] None None = Inr [(0, 16 / 5), (5, 8)]
   \<and> length (start_times (events ['' silence_start: 0'', '' silence_end: 1.5 '',
      ''size=... time=00:00:08.00 bitrate=...''])) = 1
   \<and> length (end_times (events ['' silence_start: 0'', '' silence_end: 1.5 '',
      ''size=... time=00:00:08.00 bitrate=...''])) = 1
   \<and> chunk_times_of ['' silence_start: 0'', '' silence_end: 1.5 '',
      ''size=... time=00:00:08.00 bitrate=...''] None None = Inr [(0, 0), (3 / 2, 8)]"
  by code_simp

text \<open>
  Claim C2, amended: for a stream (whose duration reports convert) with as many silence
  starts as silence ends, \<open>n\<close> of each, the reconstruction returns \<open>n\<close> intervals when
  the first silence marker is a silence end, and \<open>n + 1\<close> when it is a silence start or
  when there is no marker. When moreover the markers alternate and the effective start,
  the marker times in order and the effective end form a strictly increasing sequence,
  every interval returned has its start before its end.
\<close>

theorem C2_equal_counts:
  assumes "list_all parses lines"
      and "length (start_times (events lines)) = n"
      and "length (end_times (events lines)) = n"
  shows "\<exists>r. chunk_times_of lines st en = Inr r
           \<and> length r = (case markers (events lines) of SilenceEnd a # m \<Rightarrow> n | _ \<Rightarrow> n + 1)
           \<and> (alternating (markers (events lines))
                \<and> sorted_wrt (<) (default_start st # map event_time (markers (events lines))
                                   @ [effective_end (events lines) en])
              \<longrightarrow> list_all (\<lambda>(a, b). a < b) r)"
  using assms
  by (auto simp: chunk_times_events pairing_length list_all_iff intro: pairing_increasing)

text \<open>An instance: one silence from 3.2 to 5.0 in 8 seconds, two intervals.\<close>

theorem C2_equal_counts_witness:
  "list_all parses ['' silence_start: 3.200000'', '' silence_end: 5.000000 '',
      ''size=... time=00:00:08.00 bitrate=...'']
   \<and> length (start_times (events ['' silence_start: 3.200000'', '' silence_end: 5.000000 '',
      ''size=... time=00:00:08.00 bitrate=...''])) = 1
   \<and> length (end_times (events ['' silence_start: 3.200000'', '' silence_end: 5.000000 '',
      ''size=... time=00:00:08.00 bitrate=...''])) = 1
   \<and> alternating (markers (events ['' silence_start: 3.200000'', '' silence_end: 5.000000 '',
      ''size=... time=00:00:08.00 bitrate=...'']))
   \<and> sorted_wrt (<) (default_start None
         # map event_time (markers (events ['' silence_start: 3.200000'',
             '' silence_end: 5.000000 '', ''size=... time=00:00:08.00 bitrate=...'']))
         @ [effective_end (events ['' silence_start: 3.200000'', '' silence_end: 5.000000 '',
             ''size=... time=00:00:08.00 bitrate=...'']) None])
   \<and> (\<exists>r. chunk_times_of ['' silence_start: 3.200000'', '' silence_end: 5.000000 '',
             ''size=... time=00:00:08.00 bitrate=...''] None None = Inr r
          \<and> length r = 2 \<and> list_all (\<lambda>(a, b). a < b) r)"
proof -
  let ?L = "['' silence_start: 3.200000'', '' silence_end: 5.000000 '',
      ''size=... time=00:00:08.00 bitrate=...'']"
  have h1: "list_all parses ?L" by code_simp
  have h2: "length (start_times (events ?L)) = 1" by code_simp
  have h3: "length (end_times (events ?L)) = 1" by code_simp
  have h4: "alternating (markers (events ?L))" by code_simp
  have h5: "sorted_wrt (<) (default_start None # map event_time (markers (events ?L))
              @ [effective_end (events ?L) None])" by code_simp
  have m: "markers (events ?L) = [SilenceStart (16 / 5), SilenceEnd 5]" by code_simp
  from C2_equal_counts [OF h1 h2 h3, of None None] obtain r
    where "chunk_times_of ?L None None = Inr r"
      and "length r = (case markers (events ?L) of SilenceEnd a # m \<Rightarrow> 1 | _ \<Rightarrow> 1 + 1)"
      and "alternating (markers (events ?L))
           \<and> sorted_wrt (<) (default_start None # map event_time (markers (events ?L))
                @ [effective_end (events ?L) None]) \<longrightarrow> list_all (\<lambda>(a, b). a < b) r"
    by blast
  with h4 h5 have "chunk_times_of ?L None None = Inr r \<and> length r = 2
      \<and> list_all (\<lambda>(a, b). a < b) r"
    unfolding m by simp
  with h1 h2 h3 h4 h5 show ?thesis by blast
qed

subsection \<open>Claim C3: a stream that begins with a silence start\<close>

text \<open>
  Claim C3: when the first silence marker of the stream is a silence start (at time
  \<open>t\<close>), the first interval returned starts at the effective start time, the given
  \<^verbatim>\<open>start_time\<close> or 0, and ends at \<open>t\<close>. The stream is one whose duration reports
  convert (\<open>list_all parses\<close>), so that the scan returns.
\<close>

theorem C3_first_marker_silence_start:
  assumes "list_all parses lines"
      and "markers (events lines) = SilenceStart t # m"
  shows "\<exists>rest. chunk_times_of lines st en = Inr ((default_start st, t) # rest)"
  using assms by (simp add: chunk_times_events pairing_start_first)

text \<open>An instance: silence from 3.2 to 5.0, analysis from 1.0 on.\<close>

theorem C3_first_marker_silence_start_witness:
  "list_all parses ['' silence_start: 3.200000'', '' silence_end: 5.000000 '']
   \<and> markers (events ['' silence_start: 3.200000'', '' silence_end: 5.000000 ''])
       = SilenceStart (16 / 5) # [SilenceEnd 5]
   \<and> (\<exists>rest. chunk_times_of ['' silence_start: 3.200000'', '' silence_end: 5.000000 '']
          (Some 1) None = Inr ((1, 16 / 5) # rest))"
proof -
  let ?L = "['' silence_start: 3.200000'', '' silence_end: 5.000000 '']"
  have h1: "list_all parses ?L" by code_simp
  have h2: "markers (events ?L) = SilenceStart (16 / 5) # [SilenceEnd 5]" by code_simp
  from C3_first_marker_silence_start [OF h1 h2, of "Some 1" None] h1 h2
  show ?thesis by (simp add: default_start_def)
qed

subsection \<open>Claims C4 and C5: the end of the last interval\<close>

text \<open>
  A stream without silence markers yields one interval, from the effective start to the
  value line 96 computes. That value is the effective end time unless the end time is
  zero: \<^verbatim>\<open>end_time or 10000000.\<close> takes a zero for a missing value.
\<close>

lemma no_markers_single_interval:
  assumes "list_all parses lines" and "markers (events lines) = []"
  shows "chunk_times_of lines st en
           = Inr [(default_start st, opt_float_or (reported_end (events lines) en) 10000000)]"
  using assms by (simp add: chunk_times_events pairing_no_markers)

lemma opt_float_or_effective_end:
  "reported_end evs en \<noteq> Some 0 \<Longrightarrow>
   opt_float_or (reported_end evs en) 10000000 = effective_end evs en"
  by (simp add: opt_float_or_def float_or_def effective_end_def split: option.splits)

text \<open>
  Claim C4: a stream without silence markers yields exactly one interval, from the
  effective start time to the effective end time; the empty stream with start 1.0 and end
  4.0 yields \<open>[(1.0, 4.0)]\<close>.

  The instance holds (first conjunct). The general statement fails where the effective
  end time is zero: with \<^verbatim>\<open>end_time = 0.0\<close> given, or with a total duration of
  \<^verbatim>\<open>00:00:00.00\<close> reported, the interval ends at the sentinel 10000000 and not at 0.
  Line 51 tests \<^verbatim>\<open>end_time is not None\<close> and so takes the zero for a given value; line
  96 does not.
\<close>

theorem C4_no_markers_zero_end:
  "chunk_times_of [] (Some 1) (Some 4) = Inr [(1, 4)]
   \<and> markers (events []) = []
   \<and> effective_end (events []) (Some 0) = 0
   \<and> chunk_times_of [] None (Some 0) = Inr [(0, 10000000)]
   \<and> markers (events [''size=N/A time=00:00:00.00 bitrate=N/A'']) = []
   \<and> effective_end (events [''size=N/A time=00:00:00.00 bitrate=N/A'']) None = 0
   \<and> chunk_times_of [''size=N/A time=00:00:00.00 bitrate=N/A''] None None
       = Inr [(0, 10000000)]"
  by code_simp

text \<open>
  Claim C5: when the stream ends while non-silent, the last interval ends at the effective
  end time (the last total duration reported, or the given end time), and the sentinel
  10000000 is used only when no duration was reported and no end time given.

  At a reported total duration of \<^verbatim>\<open>00:00:00.00\<close> the scan ends with more starts than
  ends and with \<open>end_time = Some 0\<close>, a duration was reported, and yet the last interval
  ends at the sentinel.
\<close>

theorem C5_zero_duration_sentinel:
  "scan_lines 0 [''[silencedetect @ 0x1] silence_end: 0.004 | silence_duration: 0.004'',
                 ''size=N/A time=00:00:00.00 bitrate=N/A'']
       \<lparr>chunk_starts = [], chunk_ends = [], end_time = None\<rparr>
     = Inr \<lparr>chunk_starts = [1 / 250], chunk_ends = [], end_time = Some 0\<rparr>
   \<and> chunk_times_of [''[silencedetect @ 0x1] silence_end: 0.004 | silence_duration: 0.004'',
                 ''size=N/A time=00:00:00.00 bitrate=N/A''] None None
     = Inr [(1 / 250, 10000000)]"
  by code_simp

subsection \<open>Claim C9: the pairing keeps as many intervals as the shorter sequence\<close>

text \<open>
  Claim C9: for every stream (whose duration reports convert), the scan returns a state,
  and the intervals returned are as many as the shorter of the two sequences after the
  repairs of lines 90 to 96: they are the first entries of \<open>chunk_starts\<close> paired with
  the first entries of \<open>chunk_ends\<close>, and what either sequence holds beyond that number
  is dropped; the result is a value (\<open>Inr\<close>), not an error.
\<close>

theorem C9_pairing_drops_excess:
  assumes "list_all parses lines"
  shows "\<exists>s r. scan_lines (default_start st) lines
                 \<lparr>chunk_starts = [], chunk_ends = [], end_time = en\<rparr> = Inr s
           \<and> chunk_times_of lines st en = Inr r
           \<and> length r = min (length (chunk_starts (post_process (default_start st) s)))
                            (length (chunk_ends (post_process (default_start st) s)))
           \<and> map fst r = take (length r) (chunk_starts (post_process (default_start st) s))
           \<and> map snd r = take (length r) (chunk_ends (post_process (default_start st) s))"
proof -
  from assms obtain s where s: "scan_lines (default_start st) lines
      \<lparr>chunk_starts = [], chunk_ends = [], end_time = en\<rparr> = Inr s"
    by (simp add: scan_lines_events)
  let ?p = "post_process (default_start st) s"
  have "chunk_times_of lines st en = Inr (zip (chunk_starts ?p) (chunk_ends ?p))"
    by (simp add: chunk_times_of_def s Let_def)
  moreover have "map fst (zip (chunk_starts ?p) (chunk_ends ?p))
      = take (length (zip (chunk_starts ?p) (chunk_ends ?p))) (chunk_starts ?p)"
    by (simp add: map_fst_zip_take)
  moreover have "map snd (zip (chunk_starts ?p) (chunk_ends ?p))
      = take (length (zip (chunk_starts ?p) (chunk_ends ?p))) (chunk_ends ?p)"
    by (simp add: map_snd_zip_take min.commute)
  ultimately show ?thesis using s by auto
qed

text \<open>
  An instance: two silence ends in a row leave \<open>chunk_starts = [1, 2]\<close> and, after the
  repair, \<open>chunk_ends = [10000000]\<close>; the start \<open>2\<close> is dropped.
\<close>

theorem C9_pairing_drops_excess_witness:
  "list_all parses ['' silence_end: 1.0 '', '' silence_end: 2.0 '']
   \<and> scan_lines 0 ['' silence_end: 1.0 '', '' silence_end: 2.0 '']
         \<lparr>chunk_starts = [], chunk_ends = [], end_time = None\<rparr>
       = Inr \<lparr>chunk_starts = [1, 2], chunk_ends = [], end_time = None\<rparr>
   \<and> chunk_starts (post_process 0 \<lparr>chunk_starts = [1, 2], chunk_ends = [], end_time = None\<rparr>)
       = [1, 2]
   \<and> chunk_ends (post_process 0 \<lparr>chunk_starts = [1, 2], chunk_ends = [], end_time = None\<rparr>)
       = [10000000]
   \<and> chunk_times_of ['' silence_end: 1.0 '', '' silence_end: 2.0 ''] None None
       = Inr [(1, 10000000)]"
proof -
  let ?L = "['' silence_end: 1.0 '', '' silence_end: 2.0 '']"
  let ?s = "\<lparr>chunk_starts = [1, 2], chunk_ends = [], end_time = None\<rparr>"
  have h: "list_all parses ?L" by code_simp
  have s: "scan_lines 0 ?L \<lparr>chunk_starts = [], chunk_ends = [], end_time = None\<rparr> = Inr ?s"
    by code_simp
  have p: "chunk_starts (post_process 0 ?s) = [1, 2]" "chunk_ends (post_process 0 ?s) = [10000000]"
    by code_simp+
  have d: "default_start None = 0" by (simp add: default_start_def)
  from C9_pairing_drops_excess [OF h, of None None, unfolded d] obtain s' r
    where s': "scan_lines 0 ?L \<lparr>chunk_starts = [], chunk_ends = [], end_time = None\<rparr> = Inr s'"
      and r: "chunk_times_of ?L None None = Inr r"
      and l: "length r = min (length (chunk_starts (post_process 0 s')))
                          (length (chunk_ends (post_process 0 s')))"
      and f: "map fst r = take (length r) (chunk_starts (post_process 0 s'))"
      and g: "map snd r = take (length r) (chunk_ends (post_process 0 s'))"
    by blast
  from s' [unfolded s] have eq: "s' = ?s" by simp
  from l f g have "length r = 1" "map fst r = [1]" "map snd r = [10000000]"
    unfolding eq p by simp_all
  then have "r = [(1, 10000000)]"
    by (cases r) auto
  with h s p r show ?thesis by simp
qed

subsection \<open>Claim C10: one event per line, by precedence\<close>

text \<open>
  Claim C10: a line contributes at most one event. When the silence start pattern
  matches, the loop body applies the silence start and nothing else, whatever the other
  two patterns do; the silence end counts only when the silence start pattern does not
  match; the duration report only when neither matches; a line that matches none leaves
  the state as it is.
\<close>

theorem C10_first_match_wins:
  "(re_search silence_start_re line = Some g \<longrightarrow>
      (\<exists>t. py_float g = Inr t \<and> loop_body st s line = Inr (apply_event st s (SilenceStart t))))
   \<and> (re_search silence_start_re line = None \<and> re_search silence_end_re line = Some g \<longrightarrow>
      (\<exists>t. py_float g = Inr t \<and> loop_body st s line = Inr (apply_event st s (SilenceEnd t))))
   \<and> (re_search silence_start_re line = None \<and> re_search silence_end_re line = None
        \<and> re_search total_duration_re line = Some (hh, mm, ss) \<longrightarrow>
      loop_body st s line =
        (case py_float ss of
           Inl e \<Rightarrow> Inl e
         | Inr sec \<Rightarrow>
             Inr (apply_event st s
                    (DurationReport (of_int (py_int hh) * 3600 + of_int (py_int mm) * 60 + sec)))))
   \<and> (re_search silence_start_re line = None \<and> re_search silence_end_re line = None
        \<and> re_search total_duration_re line = None \<longrightarrow>
      loop_body st s line = Inr s)"
proof (intro conjI impI)
  assume a: "re_search silence_start_re line = Some g"
  from parses_silence_start [OF a] obtain t where "py_float g = Inr t" ..
  with a show "\<exists>t. py_float g = Inr t \<and> loop_body st s line = Inr (apply_event st s (SilenceStart t))"
    by (simp add: loop_body_parse_line parse_line_def)
next
  assume a: "re_search silence_start_re line = None \<and> re_search silence_end_re line = Some g"
  then have "re_search silence_end_re line = Some g" ..
  from parses_silence_end [OF this] obtain t where "py_float g = Inr t" ..
  with a show "\<exists>t. py_float g = Inr t \<and> loop_body st s line = Inr (apply_event st s (SilenceEnd t))"
    by (simp add: loop_body_parse_line parse_line_def)
next
  assume "re_search silence_start_re line = None \<and> re_search silence_end_re line = None
        \<and> re_search total_duration_re line = Some (hh, mm, ss)"
  then show "loop_body st s line =
        (case py_float ss of
           Inl e \<Rightarrow> Inl e
         | Inr sec \<Rightarrow>
             Inr (apply_event st s
                    (DurationReport (of_int (py_int hh) * 3600 + of_int (py_int mm) * 60 + sec))))"
    by (simp add: loop_body_parse_line parse_line_def split: sum.splits)
next
  assume "re_search silence_start_re line = None \<and> re_search silence_end_re line = None
        \<and> re_search total_duration_re line = None"
  then show "loop_body st s line = Inr s"
    by (simp add: loop_body_parse_line parse_line_def)
qed

text \<open>
  An instance: a line that all three patterns match adds the silence start at 2.0 only;
  the silence end at 1.0 and the duration are not used.
\<close>

theorem C10_first_match_wins_witness:
  "re_search silence_start_re
       ''size=1 time=01:02:03.25 bitrate= silence_end: 1.0  silence_start: 2.0'' = Some ''2.0''
   \<and> re_search silence_end_re
       ''size=1 time=01:02:03.25 bitrate= silence_end: 1.0  silence_start: 2.0'' = Some ''1.0''
   \<and> re_search total_duration_re
       ''size=1 time=01:02:03.25 bitrate= silence_end: 1.0  silence_start: 2.0''
       = Some (''01'', ''02'', ''03.25'')
   \<and> loop_body 7 \<lparr>chunk_starts = [5], chunk_ends = [], end_time = None\<rparr>
       ''size=1 time=01:02:03.25 bitrate= silence_end: 1.0  silence_start: 2.0''
       = Inr \<lparr>chunk_starts = [5], chunk_ends = [2], end_time = None\<rparr>"
proof -
  let ?l = "''size=1 time=01:02:03.25 bitrate= silence_end: 1.0  silence_start: 2.0''"
  let ?s = "\<lparr>chunk_starts = [5], chunk_ends = [], end_time = None\<rparr>"
  have a: "re_search silence_start_re ?l = Some ''2.0''" by code_simp
  have b: "re_search silence_end_re ?l = Some ''1.0''" by code_simp
  have c: "re_search total_duration_re ?l = Some (''01'', ''02'', ''03.25'')" by code_simp
  have f: "py_float ''2.0'' = Inr 2" by code_simp
  from C10_first_match_wins [of ?l "''2.0''" 7 ?s] a
  obtain t where "py_float ''2.0'' = Inr t"
    and "loop_body 7 ?s ?l = Inr (apply_event 7 ?s (SilenceStart t))"
    by blast
  with f have "loop_body 7 ?s ?l = Inr \<lparr>chunk_starts = [5], chunk_ends = [2], end_time = None\<rparr>"
    by simp
  with a b c show ?thesis by blast
qed


section \<open>Properties of the run\<close>

subsection \<open>The scan with floats raises and appends as the scan with exact values\<close>

lemma float_loop_body_same:
  assumes "same_lengths s fs"
  shows "(case loop_body st s line of
            Inl e \<Rightarrow> float_loop_body fstart fs line = Inl e
          | Inr s' \<Rightarrow> (\<exists>fs'. float_loop_body fstart fs line = Inr fs' \<and> same_lengths s' fs'))"
  using assms
  by (auto simp: loop_body_def float_loop_body_def float_of_text_def same_lengths_def
      split: option.splits sum.splits prod.splits)

lemma float_scan_lines_same:
  assumes "same_lengths s fs"
  shows "(case scan_lines st lines s of
            Inl e \<Rightarrow> float_scan_lines fstart lines fs = Inl e
          | Inr s' \<Rightarrow> (\<exists>fs'. float_scan_lines fstart lines fs = Inr fs' \<and> same_lengths s' fs'))"
  using assms
proof (induction lines arbitrary: s fs)
  case Nil
  then show ?case by simp
next
  case (Cons line lines)
  from float_loop_body_same [OF Cons.prems, where st = st and line = line and fstart = fstart]
  show ?case
    by (auto split: sum.splits dest: Cons.IH [of _ _])
qed

lemma float_chunk_times_same:
  "(case chunk_times_of lines st en of
      Inl e \<Rightarrow> float_chunk_times_of lines fstart fend = Inl e
    | Inr r \<Rightarrow> (\<exists>fr. float_chunk_times_of lines fstart fend = Inr fr \<and> length fr = length r))"
proof -
  have "same_lengths \<lparr>chunk_starts = [], chunk_ends = [], end_time = en\<rparr>
          \<lparr>float_starts = [], float_ends = [], float_end_time = fend\<rparr>"
    by (simp add: same_lengths_def)
  from float_scan_lines_same [OF this, where st = "default_start st" and lines = lines
      and fstart = "float_default_start fstart"]
  show ?thesis
    by (auto simp: chunk_times_of_def float_chunk_times_of_def post_process_def
        no_silence_found_def finished_with_non_silence_def float_post_process_def
        same_lengths_def Let_def split: sum.splits)
qed

subsection \<open>The four-decimal texts\<close>

lemma is_digit_digit_char:
  assumes "0 \<le> d" "d < 10"
  shows "is_digit (digit_char d)"
proof -
  from assms have "d = 0 \<or> d = 1 \<or> d = 2 \<or> d = 3 \<or> d = 4 \<or> d = 5 \<or> d = 6 \<or> d = 7 \<or> d = 8 \<or> d = 9"
    by arith
  then show ?thesis
    by (elim disjE) (simp_all add: digit_char_def is_digit_def)
qed

lemma str_dec_digits: "0 \<le> n \<Longrightarrow> str_dec n \<noteq> [] \<and> list_all is_digit (str_dec n)"
proof (induction n rule: str_dec.induct)
  case (1 n)
  show ?case
  proof (cases "n < 10")
    case True
    with 1 show ?thesis
      by (simp add: str_dec.simps [of n] is_digit_digit_char)
  next
    case False
    with 1 have "str_dec (n div 10) \<noteq> [] \<and> list_all is_digit (str_dec (n div 10))"
      by simp
    moreover have "is_digit (digit_char (n mod 10))"
      by (rule is_digit_digit_char) simp_all
    ultimately show ?thesis using False
      by (simp add: str_dec.simps [of n])
  qed
qed

lemma round_half_even_nonneg: "0 \<le> q \<Longrightarrow> 0 \<le> round_half_even q"
  by (simp add: round_half_even_def Let_def)

lemma is_digit_not_minus: "is_digit c \<Longrightarrow> c \<noteq> CHR ''-''"
  by (auto simp: is_digit_def)

lemma fixed4_digits:
  assumes "ip \<noteq> []" "list_all is_digit ip" "list_all is_digit fp" "length fp = 4"
  shows "fixed4 (ip @ CHR ''.'' # fp)" and "fixed4 (CHR ''-'' # ip @ CHR ''.'' # fp)"
proof -
  from assms(1) obtain c r where ip: "ip = c # r" by (cases ip) auto
  with assms(2) have "c \<noteq> CHR ''-''" by (simp add: is_digit_not_minus)
  with ip have u: "(case ip @ CHR ''.'' # fp of [] \<Rightarrow> ip @ CHR ''.'' # fp
                    | c # r \<Rightarrow> if c = CHR ''-'' then r else ip @ CHR ''.'' # fp) = ip @ CHR ''.'' # fp"
    by simp
  from assms show "fixed4 (ip @ CHR ''.'' # fp)"
    unfolding fixed4_def u Let_def
    by (simp add: takeWhile_digits_dot dropWhile_digits_dot)
  from assms show "fixed4 (CHR ''-'' # ip @ CHR ''.'' # fp)"
    unfolding fixed4_def Let_def
    by (simp add: takeWhile_digits_dot dropWhile_digits_dot)
qed

lemma fixed4_fixed_04f: "fixed4 (fixed_04f x)"
proof -
  let ?n = "round_half_even (\<bar>x\<bar> * 10000)"
  let ?fp = "[digit_char (?n div 1000 mod 10), digit_char (?n div 100 mod 10),
              digit_char (?n div 10 mod 10), digit_char (?n mod 10)]"
  have n: "0 \<le> ?n" by (rule round_half_even_nonneg) simp
  then have "0 \<le> ?n div 10000" by simp
  then have ip: "str_dec (?n div 10000) \<noteq> []" "list_all is_digit (str_dec (?n div 10000))"
    using str_dec_digits by blast+
  have fp: "list_all is_digit ?fp" "length ?fp = 4"
    by (simp_all add: is_digit_digit_char)
  show ?thesis
  proof (cases "x < 0")
    case True
    then have "fixed_04f x = CHR ''-'' # str_dec (?n div 10000) @ CHR ''.'' # ?fp"
      by (simp add: fixed_04f_def Let_def)
    with fixed4_digits(2) [OF ip fp] show ?thesis by simp
  next
    case False
    then have "fixed_04f x = str_dec (?n div 10000) @ CHR ''.'' # ?fp"
      by (simp add: fixed_04f_def Let_def)
    with fixed4_digits(1) [OF ip fp] show ?thesis by simp
  qed
qed

lemma fixed4_negative_zero: "fixed4 ''-0.0000''"
  by (simp add: fixed4_def is_digit_def)

lemma fixed4_format_04f: "is_finite x \<Longrightarrow> fixed4 (format_04f x)"
  by (cases x) (simp_all add: format_04f_def is_finite_def fixed4_fixed_04f fixed4_negative_zero)

lemma not_fixed4_others:
  "\<not> fixed4 ''inf''" "\<not> fixed4 ''-inf''" "\<not> fixed4 ''nan''"
  by (simp_all add: fixed4_def is_digit_def)

lemma fixed4_format_04f_iff: "fixed4 (format_04f x) \<longleftrightarrow> is_finite x"
  by (cases x) (simp_all add: format_04f_def is_finite_def fixed4_fixed_04f fixed4_negative_zero
      not_fixed4_others)

subsection \<open>The loop over the chunks\<close>

lemma upt_add_Suc: "[i ..< i + Suc n] = i # [Suc i ..< Suc i + n]"
proof -
  have "i < i + Suc n" by simp
  then have "[i ..< i + Suc n] = i # [Suc i ..< i + Suc n]" by (rule upt_conv_Cons)
  then show ?thesis by (simp del: upt_Suc)
qed

lemma enumerate_from_Cons:
  "enumerate_from i (x # xs) = (i, x) # enumerate_from (Suc i) xs"
  unfolding enumerate_from_def length_Cons upt_add_Suc by simp

lemma length_enumerate_from: "length (enumerate_from i xs) = length xs"
  by (simp add: enumerate_from_def)

lemma nth_enumerate_from: "k < length xs \<Longrightarrow> enumerate_from i xs ! k = (i + k, xs ! k)"
  by (simp add: enumerate_from_def)

lemma makedirs_world:
  "launched (snd (makedirs env p w)) = launched w"
  "files_written (snd (makedirs env p w)) = files_written w"
  "stderr_written (snd (makedirs env p w)) = stderr_written w"
  by (simp_all add: makedirs_def split: option.splits)

lemma split_chunk_answers:
  assumes "chunk_calls_answer env a i chunk w"
  shows "\<exists>w'. (\<forall>md. split_chunk env a i chunk md w
                   = (None, md @ [metadata_of (out_name env a i) chunk], w'))
           \<and> launched w' = launched w @ [extract_command a (out_name env a i) chunk]
           \<and> files_written w' = files_written w"
proof -
  from assms obtain f where f: "str_format env (out_pattern a) i = Inr f"
    by (auto simp: chunk_calls_answer_def split: sum.splits)
  then have n: "out_name env a i = f" by (simp add: out_name_def)
  obtain e w1 where m: "makedirs env (dirname f) w = (e, w1)"
    by (cases "makedirs env (dirname f) w")
  with assms f have e: "e = None"
    by (cases e) (simp_all add: chunk_calls_answer_def)
  from m have w1: "launched w1 = launched w" "files_written w1 = files_written w"
    using makedirs_world(1,2) [of env "dirname f" w] by simp_all
  from assms f m e obtain child
    where p: "popen env w1 (extract_command a f chunk) = Inr child"
      and d: "returncode child = 0 \<or> verbose a \<or> valid_utf8 (stderr_bytes child)"
    by (auto simp: chunk_calls_answer_def split: sum.splits)
  show ?thesis
  proof (cases "returncode child \<noteq> 0 \<and> \<not> verbose a")
    case True
    with d have "valid_utf8 (stderr_bytes child)" by simp
    with True f m e p n w1 show ?thesis
      by (simp add: split_chunk_def Let_def decode_utf8_def)
  next
    case False
    with f m e p n w1 show ?thesis
      by (auto simp: split_chunk_def Let_def)
  qed
qed

lemma split_chunk_raises:
  assumes "\<not> chunk_calls_answer env a i chunk w"
  shows "fst (split_chunk env a i chunk md w) \<noteq> None"
  using assms
  by (auto simp: chunk_calls_answer_def split_chunk_def Let_def decode_utf8_def
      split: sum.splits prod.splits option.splits if_splits)

lemma split_chunks_all:
  assumes "calls_answer env a i chunks w"
  shows "\<exists>w'. (\<forall>md. split_chunks env a i chunks md w
                   = (None, md @ all_metadata env a i chunks, w'))
           \<and> launched w' = launched w @ all_commands env a i chunks
           \<and> files_written w' = files_written w"
  using assms
proof (induction chunks arbitrary: i w)
  case Nil
  show ?case by (simp add: all_metadata_def all_commands_def enumerate_from_def)
next
  case (Cons chunk chunks)
  from Cons.prems have c: "chunk_calls_answer env a i chunk w"
    and cs: "calls_answer env a (Suc i) chunks (snd (snd (split_chunk env a i chunk [] w)))"
    by simp_all
  from split_chunk_answers [OF c] obtain w1
    where s: "\<And>md. split_chunk env a i chunk md w
                = (None, md @ [metadata_of (out_name env a i) chunk], w1)"
      and l: "launched w1 = launched w @ [extract_command a (out_name env a i) chunk]"
      and fw: "files_written w1 = files_written w"
    by blast
  from s [of "[]"] have "snd (snd (split_chunk env a i chunk [] w)) = w1" by simp
  with cs have "calls_answer env a (Suc i) chunks w1" by simp
  from Cons.IH [OF this] obtain w'
    where r: "\<And>md. split_chunks env a (Suc i) chunks md w1
               = (None, md @ all_metadata env a (Suc i) chunks, w')"
      and l': "launched w' = launched w1 @ all_commands env a (Suc i) chunks"
      and fw': "files_written w' = files_written w1"
    by blast
  from s r l l' fw fw' show ?case
    by (simp add: all_metadata_def all_commands_def enumerate_from_Cons)
qed

lemma split_chunks_raises:
  assumes "\<not> calls_answer env a i chunks w"
  shows "fst (split_chunks env a i chunks md w) \<noteq> None"
  using assms
proof (induction chunks arbitrary: i w md)
  case Nil
  then show ?case by simp
next
  case (Cons chunk chunks)
  show ?case
  proof (cases "chunk_calls_answer env a i chunk w")
    case False
    from split_chunk_raises [OF this, of md] show ?thesis
      by (auto split: prod.splits option.splits)
  next
    case True
    from split_chunk_answers [OF True] obtain w1
      where s: "\<And>md. split_chunk env a i chunk md w
                  = (None, md @ [metadata_of (out_name env a i) chunk], w1)"
      by blast
    from s [of "[]"] have "snd (snd (split_chunk env a i chunk [] w)) = w1" by simp
    with Cons.prems True have "\<not> calls_answer env a (Suc i) chunks w1" by simp
    from Cons.IH [OF this] s show ?thesis by simp
  qed
qed

lemma split_chunks_returns_iff:
  "fst (split_chunks env a i chunks md w) = None \<longleftrightarrow> calls_answer env a i chunks w"
proof
  assume r: "fst (split_chunks env a i chunks md w) = None"
  show "calls_answer env a i chunks w"
  proof (rule ccontr)
    assume "\<not> calls_answer env a i chunks w"
    from split_chunks_raises [OF this, of md] r show False by simp
  qed
next
  assume "calls_answer env a i chunks w"
  from split_chunks_all [OF this] obtain w'
    where "\<And>md. split_chunks env a i chunks md w = (None, md @ all_metadata env a i chunks, w')"
    by blast
  from this [of md] show "fst (split_chunks env a i chunks md w) = None" by simp
qed

lemma loop_world_eq:
  assumes "\<And>md. split_chunks env a 0 chunks md w = (None, md @ all_metadata env a 0 chunks, w')"
  shows "loop_world env a chunks w = w'"
  using assms [of "[]"] by (simp add: loop_world_def)

lemma dump_metadata_answers:
  assumes "dump_answers env (Some f) w"
  shows "fst (dump_metadata env (Some f) md w) = None"
    and "files_written (snd (dump_metadata env (Some f) md w)) = files_written w @ [(f, md)]"
    and "launched (snd (dump_metadata env (Some f) md w)) = launched w"
proof -
  obtain e w1 where m: "makedirs env (dirname f) w = (e, w1)"
    by (cases "makedirs env (dirname f) w")
  with assms have e: "e = None" and o: "open_for_writing env w1 f = None"
    by (cases e; simp add: dump_answers_def)+
  from m have w1: "launched w1 = launched w" "files_written w1 = files_written w"
    using makedirs_world(1,2) [of env "dirname f" w] by simp_all
  from m e o w1 show "fst (dump_metadata env (Some f) md w) = None"
    and "files_written (snd (dump_metadata env (Some f) md w)) = files_written w @ [(f, md)]"
    and "launched (snd (dump_metadata env (Some f) md w)) = launched w"
    by (simp_all add: dump_metadata_def)
qed

lemma dump_metadata_none:
  "dump_metadata env None md w = (None, w)"
  by (simp add: dump_metadata_def)

lemma dump_metadata_launched:
  "launched (snd (dump_metadata env mf md w)) = launched w"
proof (cases mf)
  case None
  then show ?thesis by (simp add: dump_metadata_none)
next
  case (Some f)
  obtain e w1 where m: "makedirs env (dirname f) w = (e, w1)"
    by (cases "makedirs env (dirname f) w")
  then have "launched w1 = launched w"
    using makedirs_world(1) [of env "dirname f" w] by simp
  with Some m show ?thesis
    by (cases e; cases "open_for_writing env w1 f") (simp_all add: dump_metadata_def)
qed

lemma dump_answers_fst:
  assumes "dump_answers env mf w"
  shows "fst (dump_metadata env mf md w) = None"
proof (cases mf)
  case None
  then show ?thesis by (simp add: dump_metadata_none)
next
  case (Some f)
  with assms dump_metadata_answers(1) [of env f w md] show ?thesis by simp
qed

lemma get_chunk_times_ok_world:
  assumes "get_chunk_times env f th d st en w = (Inr chunks, w1)"
  shows "w1 = w\<lparr>launched := launched w @ [analysis_command f th d st en]\<rparr>"
  using assms
  by (auto simp: get_chunk_times_def Let_def split: if_splits sum.splits)

section \<open>The claims about the run\<close>

subsection \<open>Claim C6: the analysis fails\<close>

text \<open>
  Claim C6, as stated: when the silence detection exits with a status other than 0, its
  captured diagnostic output is written to stderr and the process ends with a status
  other than 0, before any interval is produced or any segment extracted, and nothing is
  retried.

  Line 63 decodes the captured bytes before line 64 looks at the status. When the bytes
  are not UTF-8 (here the single byte 0xFF), \<^verbatim>\<open>UnicodeDecodeError\<close> is raised there:
  nothing of the child's output is written to \<^verbatim>\<open>sys.stderr\<close>.
\<close>

theorem C6_analysis_failure_counterexample:
  "popen (demo_env 1 [CHR 0xFF] 0 []) empty_world (analysis_of (demo_args None))
     = Inr \<lparr>returncode = 1, stderr_bytes = [CHR 0xFF]\<rparr>
   \<and> split_audio (demo_env 1 [CHR 0xFF] 0 []) (demo_args None) empty_world
     = (Some UnicodeDecodeError,
        \<lparr>launched = [SilenceDetect ''in.wav'' None None (- 30)
                      (Finite (5404319552844595 / 18014398509481984))],
         stderr_written = [], dirs_made = [], files_written = []\<rparr>)"
  by code_simp

text \<open>
  Claim C6, amended: when the silence detection was launched and exits with a status
  other than 0, the run ends with exit status 1, with no interval produced, exactly one
  child launched (the analysis, once), no directory made and no file written; and when
  the captured bytes are UTF-8, the text has been written to \<^verbatim>\<open>sys.stderr\<close> and the
  exception that ends the run is \<^verbatim>\<open>SystemExit(1)\<close>.
\<close>

theorem C6_analysis_failure:
  assumes "popen env w (analysis_of a) = Inr child"
      and "returncode child \<noteq> 0"
  shows "(valid_utf8 (stderr_bytes child) \<longrightarrow>
            split_audio env a w
              = (Some (SystemExit 1),
                 w\<lparr>launched := launched w @ [analysis_of a],
                   stderr_written := stderr_written w @ [stderr_bytes child]\<rparr>))
         \<and> (\<exists>e. fst (chunk_times_run env a w) = Inl e)
         \<and> exit_status (fst (split_audio env a w)) = 1
         \<and> launched (snd (split_audio env a w)) = launched w @ [analysis_of a]
         \<and> dirs_made (snd (split_audio env a w)) = dirs_made w
         \<and> files_written (snd (split_audio env a w)) = files_written w"
  using assms
  by (simp add: split_audio_def chunk_times_run_def get_chunk_times_def analysis_of_def
      decode_utf8_def exit_status_def Let_def)

text \<open>An instance: the example run with an analysis that exits with status 1.\<close>

theorem C6_analysis_failure_witness:
  "popen (demo_env 1 demo_output 0 []) empty_world (analysis_of (demo_args None))
     = Inr \<lparr>returncode = 1, stderr_bytes = demo_output\<rparr>
   \<and> returncode \<lparr>returncode = 1, stderr_bytes = demo_output\<rparr> \<noteq> 0
   \<and> valid_utf8 demo_output
   \<and> split_audio (demo_env 1 demo_output 0 []) (demo_args None) empty_world
       = (Some (SystemExit 1),
          \<lparr>launched = [SilenceDetect ''in.wav'' None None (- 30)
                        (Finite (5404319552844595 / 18014398509481984))],
           stderr_written = [demo_output], dirs_made = [], files_written = []\<rparr>)
   \<and> exit_status (fst (split_audio (demo_env 1 demo_output 0 []) (demo_args None) empty_world))
       = 1"
proof -
  let ?env = "demo_env 1 demo_output 0 []"
  let ?child = "\<lparr>returncode = 1, stderr_bytes = demo_output\<rparr>"
  let ?cmd = "SilenceDetect ''in.wav'' None None (- 30)
                (Finite (5404319552844595 / 18014398509481984))"
  have c: "analysis_of (demo_args None) = ?cmd"
    by code_simp
  have h1: "popen ?env empty_world (analysis_of (demo_args None)) = Inr ?child"
    unfolding c by (simp add: demo_env_def demo_popen_def)
  have h2: "returncode ?child \<noteq> 0"
    by simp
  have v: "valid_utf8 demo_output"
    by code_simp
  have w: "empty_world\<lparr>launched := launched empty_world @ [?cmd],
               stderr_written := stderr_written empty_world @ [demo_output]\<rparr>
           = \<lparr>launched = [?cmd], stderr_written = [demo_output], dirs_made = [],
              files_written = []\<rparr>"
    by (simp add: empty_world_def)
  have sb: "stderr_bytes ?child = demo_output"
    by simp
  from v have v': "valid_utf8 (stderr_bytes ?child)"
    by simp
  from C6_analysis_failure [OF h1 h2, unfolded c] v'
  have r: "split_audio ?env (demo_args None) empty_world
          = (Some (SystemExit 1),
             empty_world\<lparr>launched := launched empty_world @ [?cmd],
               stderr_written := stderr_written empty_world @ [stderr_bytes ?child]\<rparr>)"
    and x: "exit_status (fst (split_audio ?env (demo_args None) empty_world)) = 1"
    by blast+
  from r have "split_audio ?env (demo_args None) empty_world
          = (Some (SystemExit 1),
             \<lparr>launched = [?cmd], stderr_written = [demo_output], dirs_made = [],
              files_written = []\<rparr>)"
    unfolding sb w .
  with h1 h2 v x show ?thesis by blast
qed

subsection \<open>Claim C7: an extraction fails\<close>

text \<open>
  Claim C7, as stated: an entry is recorded for every interval whether or not its
  extraction succeeds, and a status other than 0 of one extraction does not abort the
  processing: the intervals after it are processed and the exit status of the run is not
  affected.

  Outside verbose mode line 158 decodes the captured stderr of a failed extraction. When
  the bytes are not UTF-8, \<^verbatim>\<open>UnicodeDecodeError\<close> ends the run: in the example the
  second interval is not processed, no metadata document is written, and the exit status
  is 1.
\<close>

theorem C7_extraction_failure_counterexample:
  "popen (demo_env 0 demo_output 1 [CHR 0xFF]) empty_world
       (Extract ''in.wav'' (Finite 0) (Finite (3602879701896397 / 1125899906842624)) None
          ''out/chunk_0.wav'')
     = Inr \<lparr>returncode = 1, stderr_bytes = [CHR 0xFF]\<rparr>
   \<and> chunk_times_run (demo_env 0 demo_output 1 [CHR 0xFF]) (demo_args None) empty_world
     = (Inr [(Finite 0, Finite (3602879701896397 / 1125899906842624)), (Finite 5, Finite 8)],
        \<lparr>launched = [SilenceDetect ''in.wav'' None None (- 30)
                      (Finite (5404319552844595 / 18014398509481984))],
         stderr_written = [], dirs_made = [], files_written = []\<rparr>)
   \<and> split_audio (demo_env 0 demo_output 1 [CHR 0xFF]) (demo_args (Some ''meta/segments.json''))
       empty_world
     = (Some UnicodeDecodeError,
        \<lparr>launched = [SilenceDetect ''in.wav'' None None (- 30)
                      (Finite (5404319552844595 / 18014398509481984)),
                    Extract ''in.wav'' (Finite 0)
                      (Finite (3602879701896397 / 1125899906842624)) None ''out/chunk_0.wav''],
         stderr_written = [], dirs_made = [''out''], files_written = []\<rparr>)
   \<and> exit_status (fst (split_audio (demo_env 0 demo_output 1 [CHR 0xFF])
        (demo_args (Some ''meta/segments.json'')) empty_world)) = 1"
  by code_simp

text \<open>
  Claim C7, amended: in a run whose analysis produced the chunks, let every call the loop
  makes to the outside answer without an exception (\<open>calls_answer\<close>: the formatting
  of the file name, \<^verbatim>\<open>_makedirs\<close>, the launch, and the decoding of the stderr of an
  extraction that failed outside verbose mode), and let the metadata file be writable
  when one is asked for. Nothing is assumed about the exit status of any extraction.
  Then the loop goes through all chunks: it returns without exception with one metadata
  entry per chunk, in order; \<^verbatim>\<open>split_audio\<close> hands exactly these entries to the dump
  and returns normally, so that the exit status is 0; and the children launched in the
  run are the analysis and one extraction per chunk, in order.
  The hypothesis on the calls is also necessary for the loop to return
  (\<open>split_chunks_returns_iff\<close>).
\<close>

theorem C7_extraction_failure_not_fatal:
  assumes "chunk_times_run env a w = (Inr chunks, w1)"
      and "calls_answer env a 0 chunks w1"
      and "dump_answers env (metadata_filename a) (loop_world env a chunks w1)"
  shows "split_chunks env a 0 chunks [] w1
           = (None, all_metadata env a 0 chunks, loop_world env a chunks w1)
         \<and> length (all_metadata env a 0 chunks) = length chunks
         \<and> length (all_commands env a 0 chunks) = length chunks
         \<and> split_audio env a w
             = dump_metadata env (metadata_filename a) (all_metadata env a 0 chunks)
                 (loop_world env a chunks w1)
         \<and> fst (split_audio env a w) = None
         \<and> exit_status (fst (split_audio env a w)) = 0
         \<and> launched (snd (split_audio env a w))
             = launched w @ analysis_of a # all_commands env a 0 chunks"
proof -
  from split_chunks_all [OF assms(2)] obtain w2
    where r: "\<And>md. split_chunks env a 0 chunks md w1
                = (None, md @ all_metadata env a 0 chunks, w2)"
      and l: "launched w2 = launched w1 @ all_commands env a 0 chunks"
    by blast
  from loop_world_eq [OF r] have lw: "loop_world env a chunks w1 = w2" .
  from assms(1) have "w1 = w\<lparr>launched := launched w @ [analysis_of a]\<rparr>"
    unfolding chunk_times_run_def analysis_of_def by (rule get_chunk_times_ok_world)
  then have l1: "launched w1 = launched w @ [analysis_of a]" by simp
  from assms(1) r [of "[]"]
  have s: "split_audio env a w
             = dump_metadata env (metadata_filename a) (all_metadata env a 0 chunks) w2"
    by (simp add: split_audio_def chunk_times_run_def)
  from assms(3) have d: "fst (dump_metadata env (metadata_filename a)
                               (all_metadata env a 0 chunks) w2) = None"
    unfolding lw by (rule dump_answers_fst)
  have dl: "launched (snd (dump_metadata env (metadata_filename a)
                             (all_metadata env a 0 chunks) w2)) = launched w2"
    by (rule dump_metadata_launched)
  from r [of "[]"] s d dl l l1 show ?thesis
    by (simp add: lw all_metadata_def all_commands_def length_enumerate_from exit_status_def)
qed

text \<open>
  An instance: the example run in which both extractions exit with status 1 and the text
  \<^verbatim>\<open>failed\<close>; both entries are recorded, both extractions launched, both texts written to
  \<^verbatim>\<open>sys.stderr\<close>, and the exit status is 0.
\<close>

theorem C7_extraction_failure_not_fatal_witness:
  "popen (demo_env 0 demo_output 1 ''failed'') empty_world
       (Extract ''in.wav'' (Finite 0) (Finite (3602879701896397 / 1125899906842624)) None
          ''out/chunk_0.wav'')
     = Inr \<lparr>returncode = 1, stderr_bytes = ''failed''\<rparr>
   \<and> chunk_times_run (demo_env 0 demo_output 1 ''failed'') (demo_args None) empty_world
       = (Inr [(Finite 0, Finite (3602879701896397 / 1125899906842624)), (Finite 5, Finite 8)],
          \<lparr>launched = [SilenceDetect ''in.wav'' None None (- 30)
                        (Finite (5404319552844595 / 18014398509481984))],
           stderr_written = [], dirs_made = [], files_written = []\<rparr>)
   \<and> calls_answer (demo_env 0 demo_output 1 ''failed'') (demo_args None) 0
         [(Finite 0, Finite (3602879701896397 / 1125899906842624)), (Finite 5, Finite 8)]
         \<lparr>launched = [SilenceDetect ''in.wav'' None None (- 30)
                        (Finite (5404319552844595 / 18014398509481984))],
           stderr_written = [], dirs_made = [], files_written = []\<rparr>
   \<and> dump_answers (demo_env 0 demo_output 1 ''failed'') (metadata_filename (demo_args None))
         (loop_world (demo_env 0 demo_output 1 ''failed'') (demo_args None)
            [(Finite 0, Finite (3602879701896397 / 1125899906842624)), (Finite 5, Finite 8)]
            \<lparr>launched = [SilenceDetect ''in.wav'' None None (- 30)
                           (Finite (5404319552844595 / 18014398509481984))],
              stderr_written = [], dirs_made = [], files_written = []\<rparr>)
   \<and> split_audio (demo_env 0 demo_output 1 ''failed'') (demo_args None) empty_world
       = (None,
          \<lparr>launched = [SilenceDetect ''in.wav'' None None (- 30)
                        (Finite (5404319552844595 / 18014398509481984)),
                      Extract ''in.wav'' (Finite 0)
                        (Finite (3602879701896397 / 1125899906842624)) None ''out/chunk_0.wav'',
                      Extract ''in.wav'' (Finite 5) (Finite 3) None ''out/chunk_1.wav''],
           stderr_written = [''failed'', ''failed''], dirs_made = [''out''],
           files_written = []\<rparr>)
   \<and> all_metadata (demo_env 0 demo_output 1 ''failed'') (demo_args None) 0
         [(Finite 0, Finite (3602879701896397 / 1125899906842624)), (Finite 5, Finite 8)]
       = [\<lparr>filename = ''out/chunk_0.wav'', start_text = ''0.0000'',
            end_text = ''3.2000'', duration_text = ''3.2000''\<rparr>,
          \<lparr>filename = ''out/chunk_1.wav'', start_text = ''5.0000'',
            end_text = ''8.0000'', duration_text = ''3.0000''\<rparr>]
   \<and> exit_status (fst (split_audio (demo_env 0 demo_output 1 ''failed'') (demo_args None)
         empty_world)) = 0"
proof -
  let ?env = "demo_env 0 demo_output 1 ''failed''" and ?a = "demo_args None"
  let ?chunks = "[(Finite 0, Finite (3602879701896397 / 1125899906842624)), (Finite 5, Finite 8)]"
  let ?w1 = "\<lparr>launched = [SilenceDetect ''in.wav'' None None (- 30)
                        (Finite (5404319552844595 / 18014398509481984))],
           stderr_written = [], dirs_made = [], files_written = []\<rparr>"
  have p: "popen ?env empty_world
       (Extract ''in.wav'' (Finite 0) (Finite (3602879701896397 / 1125899906842624)) None
          ''out/chunk_0.wav'')
     = Inr \<lparr>returncode = 1, stderr_bytes = ''failed''\<rparr>"
    by (simp add: demo_env_def demo_popen_def)
  have h1: "chunk_times_run ?env ?a empty_world = (Inr ?chunks, ?w1)"
    by code_simp
  have h2: "calls_answer ?env ?a 0 ?chunks ?w1"
    by code_simp
  have h3: "dump_answers ?env (metadata_filename ?a) (loop_world ?env ?a ?chunks ?w1)"
    by (simp add: demo_args_def dump_answers_def)
  have m: "all_metadata ?env ?a 0 ?chunks
       = [\<lparr>filename = ''out/chunk_0.wav'', start_text = ''0.0000'',
            end_text = ''3.2000'', duration_text = ''3.2000''\<rparr>,
          \<lparr>filename = ''out/chunk_1.wav'', start_text = ''5.0000'',
            end_text = ''8.0000'', duration_text = ''3.0000''\<rparr>]"
    by code_simp
  have s: "split_audio ?env ?a empty_world
       = (None,
          \<lparr>launched = [SilenceDetect ''in.wav'' None None (- 30)
                        (Finite (5404319552844595 / 18014398509481984)),
                      Extract ''in.wav'' (Finite 0)
                        (Finite (3602879701896397 / 1125899906842624)) None ''out/chunk_0.wav'',
                      Extract ''in.wav'' (Finite 5) (Finite 3) None ''out/chunk_1.wav''],
           stderr_written = [''failed'', ''failed''], dirs_made = [''out''],
           files_written = []\<rparr>)"
    by code_simp
  from C7_extraction_failure_not_fatal [OF h1 h2 h3]
  have "exit_status (fst (split_audio ?env ?a empty_world)) = 0"
    by blast
  with p h1 h2 h3 m s show ?thesis by blast
qed

subsection \<open>Claim C8: the metadata document\<close>

text \<open>
  Claim C8, as stated: the metadata document has one record per interval, in order, whose
  start, end and duration are fixed texts with four decimals, the duration text being
  (end - start) formatted to four decimals.

  A float that is not finite is not written in fixed notation: a silence start whose
  number is too large for a double (400 digits) is the float \<^verbatim>\<open>inf\<close>, and the record has
  the texts \<^verbatim>\<open>inf\<close> for the end and for the duration. And the difference that is
  formatted is the float \<^verbatim>\<open>end_time - start_time\<close>, rounded to a double: for the floats
  of 2.79267 and 4.67022 the duration text is 1.8775, where the exact difference of the
  two decimals would give 1.8776.
\<close>

theorem C8_metadata_document_counterexample:
  "split_audio (demo_env 0 ('' silence_start: '' @ replicate 400 (CHR ''9'')) 0 [])
       (demo_args (Some ''meta/segments.json'')) empty_world
     = (None,
        \<lparr>launched = [SilenceDetect ''in.wav'' None None (- 30)
                      (Finite (5404319552844595 / 18014398509481984)),
                    Extract ''in.wav'' (Finite 0) PosInf None ''out/chunk_0.wav''],
         stderr_written = [], dirs_made = [''out'', ''meta''],
         files_written =
           [(''meta/segments.json'',
             [\<lparr>filename = ''out/chunk_0.wav'', start_text = ''0.0000'',
               end_text = ''inf'', duration_text = ''inf''\<rparr>])]\<rparr>)
   \<and> \<not> fixed4 ''inf''
   \<and> duration_text (metadata_of ''out/chunk_0.wav''
         (round_double (279267 / 100000), round_double (467022 / 100000))) = ''1.8775''
   \<and> fixed_04f (467022 / 100000 - 279267 / 100000) = ''1.8776''"
  by code_simp

text \<open>
  Claim C8, amended: in a run that processes all chunks (as in C7) with a metadata file
  name given and writable, the run writes one document to that file: the list with one
  entry per chunk, in the order of the chunks; the entry at index \<open>k\<close> holds the file
  name of index \<open>k\<close> and the start, the end and the float difference end - start, each
  formatted with \<^verbatim>\<open>'{:.04f}'\<close>; each of the three texts is a fixed text with four
  decimals when the float formatted is finite.
\<close>

theorem C8_metadata_document:
  assumes "chunk_times_run env a w = (Inr chunks, w1)"
      and "calls_answer env a 0 chunks w1"
      and "metadata_filename a = Some f"
      and "dump_answers env (Some f) (loop_world env a chunks w1)"
  shows "fst (split_audio env a w) = None
         \<and> files_written (snd (split_audio env a w))
             = files_written w @ [(f, all_metadata env a 0 chunks)]
         \<and> length (all_metadata env a 0 chunks) = length chunks
         \<and> list_all (\<lambda>k.
               filename (all_metadata env a 0 chunks ! k) = out_name env a k
             \<and> start_text (all_metadata env a 0 chunks ! k) = format_04f (fst (chunks ! k))
             \<and> end_text (all_metadata env a 0 chunks ! k) = format_04f (snd (chunks ! k))
             \<and> duration_text (all_metadata env a 0 chunks ! k)
                 = format_04f (float_sub (snd (chunks ! k)) (fst (chunks ! k)))
             \<and> (is_finite (fst (chunks ! k))
                  \<longrightarrow> fixed4 (start_text (all_metadata env a 0 chunks ! k)))
             \<and> (is_finite (snd (chunks ! k))
                  \<longrightarrow> fixed4 (end_text (all_metadata env a 0 chunks ! k)))
             \<and> (is_finite (float_sub (snd (chunks ! k)) (fst (chunks ! k)))
                  \<longrightarrow> fixed4 (duration_text (all_metadata env a 0 chunks ! k))))
             [0 ..< length chunks]"
proof -
  from split_chunks_all [OF assms(2)] obtain w2
    where r: "\<And>md. split_chunks env a 0 chunks md w1
                = (None, md @ all_metadata env a 0 chunks, w2)"
      and fw: "files_written w2 = files_written w1"
    by blast
  from loop_world_eq [OF r] have lw: "loop_world env a chunks w1 = w2" .
  from assms(1) have "w1 = w\<lparr>launched := launched w @ [analysis_of a]\<rparr>"
    unfolding chunk_times_run_def analysis_of_def by (rule get_chunk_times_ok_world)
  then have w1: "files_written w1 = files_written w" by simp
  from assms(1,3) r [of "[]"]
  have s: "split_audio env a w = dump_metadata env (Some f) (all_metadata env a 0 chunks) w2"
    by (simp add: split_audio_def chunk_times_run_def)
  from assms(4) have d: "dump_answers env (Some f) w2"
    unfolding lw .
  note dm = dump_metadata_answers(1,2) [OF d, of "all_metadata env a 0 chunks"]
  have n: "\<And>k. k < length chunks \<Longrightarrow>
             all_metadata env a 0 chunks ! k = metadata_of (out_name env a k) (chunks ! k)"
    by (simp add: all_metadata_def length_enumerate_from nth_enumerate_from)
  have "list_all (\<lambda>k.
               filename (all_metadata env a 0 chunks ! k) = out_name env a k
             \<and> start_text (all_metadata env a 0 chunks ! k) = format_04f (fst (chunks ! k))
             \<and> end_text (all_metadata env a 0 chunks ! k) = format_04f (snd (chunks ! k))
             \<and> duration_text (all_metadata env a 0 chunks ! k)
                 = format_04f (float_sub (snd (chunks ! k)) (fst (chunks ! k)))
             \<and> (is_finite (fst (chunks ! k))
                  \<longrightarrow> fixed4 (start_text (all_metadata env a 0 chunks ! k)))
             \<and> (is_finite (snd (chunks ! k))
                  \<longrightarrow> fixed4 (end_text (all_metadata env a 0 chunks ! k)))
             \<and> (is_finite (float_sub (snd (chunks ! k)) (fst (chunks ! k)))
                  \<longrightarrow> fixed4 (duration_text (all_metadata env a 0 chunks ! k))))
             [0 ..< length chunks]"
    by (auto simp: list_all_iff n metadata_of_def fixed4_format_04f split: prod.splits)
  with s dm fw w1 show ?thesis
    by (simp add: all_metadata_def length_enumerate_from)
qed

text \<open>
  An instance: the example run, two chunks without padding; the document has exactly two
  entries, with durations 3.2000 and 3.0000.
\<close>

theorem C8_metadata_document_witness:
  "chunk_times_run (demo_env 0 demo_output 0 []) (demo_args (Some ''meta/segments.json''))
       empty_world
     = (Inr [(Finite 0, Finite (3602879701896397 / 1125899906842624)), (Finite 5, Finite 8)],
        \<lparr>launched = [SilenceDetect ''in.wav'' None None (- 30)
                      (Finite (5404319552844595 / 18014398509481984))],
         stderr_written = [], dirs_made = [], files_written = []\<rparr>)
   \<and> calls_answer (demo_env 0 demo_output 0 []) (demo_args (Some ''meta/segments.json'')) 0
         [(Finite 0, Finite (3602879701896397 / 1125899906842624)), (Finite 5, Finite 8)]
         \<lparr>launched = [SilenceDetect ''in.wav'' None None (- 30)
                        (Finite (5404319552844595 / 18014398509481984))],
           stderr_written = [], dirs_made = [], files_written = []\<rparr>
   \<and> metadata_filename (demo_args (Some ''meta/segments.json'')) = Some ''meta/segments.json''
   \<and> dump_answers (demo_env 0 demo_output 0 []) (Some ''meta/segments.json'')
         (loop_world (demo_env 0 demo_output 0 []) (demo_args (Some ''meta/segments.json''))
            [(Finite 0, Finite (3602879701896397 / 1125899906842624)), (Finite 5, Finite 8)]
            \<lparr>launched = [SilenceDetect ''in.wav'' None None (- 30)
                           (Finite (5404319552844595 / 18014398509481984))],
              stderr_written = [], dirs_made = [], files_written = []\<rparr>)
   \<and> padding (demo_args (Some ''meta/segments.json'')) = Finite 0
   \<and> files_written (snd (split_audio (demo_env 0 demo_output 0 [])
         (demo_args (Some ''meta/segments.json'')) empty_world))
       = [(''meta/segments.json'',
           [\<lparr>filename = ''out/chunk_0.wav'', start_text = ''0.0000'',
             end_text = ''3.2000'', duration_text = ''3.2000''\<rparr>,
            \<lparr>filename = ''out/chunk_1.wav'', start_text = ''5.0000'',
             end_text = ''8.0000'', duration_text = ''3.0000''\<rparr>])]"
proof -
  let ?env = "demo_env 0 demo_output 0 []" and ?a = "demo_args (Some ''meta/segments.json'')"
  let ?chunks = "[(Finite 0, Finite (3602879701896397 / 1125899906842624)), (Finite 5, Finite 8)]"
  let ?w1 = "\<lparr>launched = [SilenceDetect ''in.wav'' None None (- 30)
                        (Finite (5404319552844595 / 18014398509481984))],
           stderr_written = [], dirs_made = [], files_written = []\<rparr>"
  have h1: "chunk_times_run ?env ?a empty_world = (Inr ?chunks, ?w1)"
    by code_simp
  have h2: "calls_answer ?env ?a 0 ?chunks ?w1"
    by code_simp
  have h3: "metadata_filename ?a = Some ''meta/segments.json''"
    by (simp add: demo_args_def)
  have h4: "dump_answers ?env (Some ''meta/segments.json'') (loop_world ?env ?a ?chunks ?w1)"
    by code_simp
  have p: "padding ?a = Finite 0"
    by (simp add: demo_args_def)
  have m: "all_metadata ?env ?a 0 ?chunks
             = [\<lparr>filename = ''out/chunk_0.wav'', start_text = ''0.0000'',
                 end_text = ''3.2000'', duration_text = ''3.2000''\<rparr>,
                \<lparr>filename = ''out/chunk_1.wav'', start_text = ''5.0000'',
                 end_text = ''8.0000'', duration_text = ''3.0000''\<rparr>]"
    by code_simp
  from C8_metadata_document [OF h1 h2 h3 h4]
  have "files_written (snd (split_audio ?env ?a empty_world))
          = files_written empty_world @ [(''meta/segments.json'', all_metadata ?env ?a 0 ?chunks)]"
    by blast
  then have "files_written (snd (split_audio ?env ?a empty_world))
          = [(''meta/segments.json'',
           [\<lparr>filename = ''out/chunk_0.wav'', start_text = ''0.0000'',
             end_text = ''3.2000'', duration_text = ''3.2000''\<rparr>,
            \<lparr>filename = ''out/chunk_1.wav'', start_text = ''5.0000'',
             end_text = ''8.0000'', duration_text = ''3.0000''\<rparr>])]"
    unfolding m by (simp add: empty_world_def)
  with h1 h2 h3 h4 p show ?thesis by blast
qed


end
